theory Spec2Isabelle
  imports Main "HOL-Library.AList" "HOL-Library.Multiset"
begin

section \<open>Python values and exceptions\<close>

text \<open>
  The storage adapter of pytest-benchmark (\<^verbatim>\<open>elasticsearch_storage.py\<close>) handles
  nothing but JSON-like Python values: the documents it saves, the search bodies it
  builds and the responses of the search engine. A Python \<^verbatim>\<open>dict\<close> is an association
  list in insertion order with unique keys (the order of Python 3.7 and later; under an
  older interpreter the order of \<^verbatim>\<open>items()\<close> is arbitrary, which only matters for the
  relative order of runs with equal timestamps). A float is carried as an opaque pair
  (mantissa, exponent): the adapter copies floats and never computes with them.
\<close>

datatype json =
    JNull
  | JBool bool
  | JInt int
  | JFloat int int
  | JStr string
  | JList "json list"
  | JDict "(string \<times> json) list"

type_synonym dict = "(string \<times> json) list"

text \<open>
  The exceptions that can leave the adapter. \<open>ImportError\<close> carries its argument
  tuple; \<open>TransportError\<close> is the client library's exception for an HTTP status that
  is neither a success nor ignored, \<open>ConnectionError\<close> its exception for a request that
  got no HTTP answer.
\<close>

datatype py_error =
    KeyError string
  | TypeError
  | ValueError
  | ImportError "json list"
  | ConnectionError
  | TransportError nat json

text \<open>Sequencing of two steps, the second of which runs only if the first did not raise.\<close>

definition and_then :: "py_error + 'a \<Rightarrow> ('a \<Rightarrow> py_error + 'b) \<Rightarrow> py_error + 'b" where
  "and_then m f = (case m of Inl e \<Rightarrow> Inl e | Inr x \<Rightarrow> f x)"

text \<open>
  \<^verbatim>\<open>x[k]\<close> with a string key: a lookup in a dict (\<^verbatim>\<open>KeyError\<close> when absent), a
  \<^verbatim>\<open>TypeError\<close> on a list, a string and on every value that is not subscriptable.
\<close>

fun getitem :: "json \<Rightarrow> string \<Rightarrow> py_error + json" where
  "getitem (JDict d) k = (case map_of d k of None \<Rightarrow> Inl (KeyError k) | Some v \<Rightarrow> Inr v)"
| "getitem _ k = Inl TypeError"

text \<open>\<^verbatim>\<open>d[k] = v\<close>: an existing key keeps its position, a new key goes to the end.\<close>

definition setitem :: "dict \<Rightarrow> string \<Rightarrow> json \<Rightarrow> dict" where
  "setitem d k v = AList.update k v d"

text \<open>
  \<^verbatim>\<open>for x in v\<close>: a list gives its elements, a dict its keys, a string its
  characters; nothing else here is iterable.
\<close>

fun py_iter :: "json \<Rightarrow> py_error + json list" where
  "py_iter (JList xs) = Inr xs"
| "py_iter (JDict d) = Inr (map (\<lambda>kv. JStr (fst kv)) d)"
| "py_iter (JStr s) = Inr (map (\<lambda>c. JStr [c]) s)"
| "py_iter _ = Inl TypeError"

text \<open>
  \<^verbatim>\<open>"%s" % v\<close>: a string is inserted as it is; for any other value Python inserts
  \<^verbatim>\<open>str(v)\<close>, which is taken as a parameter \<open>py_str\<close> (the rendering of floats and
  of nested containers is the interpreter's business).
\<close>

fun percent_s :: "(json \<Rightarrow> string) \<Rightarrow> json \<Rightarrow> string" where
  "percent_s py_str (JStr s) = s"
| "percent_s py_str v = py_str v"

section \<open>The search engine and its client library\<close>

text \<open>
  The engine is external. It is modelled by the history of the requests sent to it and a
  function \<open>respond\<close> from the history and a request to the raw outcome: no HTTP answer
  at all, or a status code with the decoded body. The three client calls the adapter
  makes are \<^verbatim>\<open>search\<close>, \<^verbatim>\<open>index\<close> and \<^verbatim>\<open>indices.create\<close>.
\<close>

datatype es_call =
    Search string string json
  | Index string string json string
  | IndicesCreate string json

datatype es_raw = NoAnswer | Http nat json

text \<open>
  What lies outside the repository, bundled: the search engine, Python's \<^verbatim>\<open>str\<close>,
  \<^verbatim>\<open>datetime.datetime.strptime\<close> at the format \<^verbatim>\<open>"%Y-%m-%dT%H:%M:%S.%f"\<close>
  (\<open>None\<close> when the string does not match; the values are naive datetimes, which
  Python orders linearly), and the outcome of \<^verbatim>\<open>import elasticsearch\<close> (the
  arguments of the \<^verbatim>\<open>ImportError\<close> when the library is missing).
\<close>

record 'd externals =
  respond :: "es_call list \<Rightarrow> es_call \<Rightarrow> es_raw"
  py_str :: "json \<Rightarrow> string"
  strptime :: "string \<Rightarrow> 'd option"
  import_elasticsearch :: "json list option"

text \<open>
  The client's transport: the request goes on the wire, and the answer is returned unless
  its status is outside 200..299 and not among the statuses the caller asked to
  \<^verbatim>\<open>ignore\<close>, in which case the client raises.
\<close>

definition perform_request ::
  "'d externals \<Rightarrow> nat list \<Rightarrow> es_call \<Rightarrow> es_call list \<Rightarrow> (py_error + json) \<times> es_call list" where
  "perform_request ext ignore call wire =
     ((case respond ext wire call of
         NoAnswer \<Rightarrow> Inl ConnectionError
       | Http status body \<Rightarrow>
           if (200 \<le> status \<and> status < 300) \<or> status \<in> set ignore then Inr body
           else Inl (TransportError status body)),
      wire @ [call])"

section \<open>The store\<close>

text \<open>
  The fields of \<^verbatim>\<open>ElasticsearchStorage\<close>, without the leading underscore of the
  private ones. The client object holds the hosts it was made for; the logger is an
  opaque handle.
\<close>

record storage =
  elasticsearch_hosts :: "string list"
  elasticsearch_index :: string
  elasticsearch_doctype :: string
  elasticsearch :: "string list"
  default_machine_id :: "string option"
  logger :: string
  cache :: dict

text \<open>
  An operation runs on the store and the wire and returns its result with both: a method
  may assign to the fields of \<^verbatim>\<open>self\<close>, so the store is threaded through.
\<close>

record world =
  store :: storage
  wire :: "es_call list"

definition es_search :: "'d externals \<Rightarrow> string \<Rightarrow> string \<Rightarrow> json \<Rightarrow> world \<Rightarrow> (py_error + json) \<times> world" where
  "es_search ext index doc_type body w =
     (case perform_request ext [] (Search index doc_type body) (wire w) of
        (r, wire') \<Rightarrow> (r, w\<lparr>wire := wire'\<rparr>))"

definition es_index ::
  "'d externals \<Rightarrow> string \<Rightarrow> string \<Rightarrow> json \<Rightarrow> string \<Rightarrow> world \<Rightarrow> (py_error + json) \<times> world" where
  "es_index ext index doc_type body doc_id w =
     (case perform_request ext [] (Index index doc_type body doc_id) (wire w) of
        (r, wire') \<Rightarrow> (r, w\<lparr>wire := wire'\<rparr>))"

definition es_indices_create ::
  "'d externals \<Rightarrow> string \<Rightarrow> nat list \<Rightarrow> json \<Rightarrow> world \<Rightarrow> (py_error + json) \<times> world" where
  "es_indices_create ext index ignore body w =
     (case perform_request ext ignore (IndicesCreate index body) (wire w) of
        (r, wire') \<Rightarrow> (r, w\<lparr>wire := wire'\<rparr>))"

section \<open>The adapter\<close>

subsection \<open>Search requests\<close>

text \<open>
  The body that \<^verbatim>\<open>_search\<close> builds. \<^verbatim>\<open>if id_prefix:\<close> holds for a string that is
  not empty and fails for \<^verbatim>\<open>None\<close> and for the empty string; when it holds, the
  \<^verbatim>\<open>must\<close> clause is added to the inner dict.
\<close>

definition search_body :: "string \<Rightarrow> string option \<Rightarrow> json" where
  "search_body project id_prefix =
     (let bool_clause =
            [(''filter'', JDict [(''term'', JDict [(''commit_info.project'', JStr project)])])];
          bool_clause' =
            (case id_prefix of
               None \<Rightarrow> bool_clause
             | Some p \<Rightarrow>
                 if p \<noteq> []
                 then setitem bool_clause ''must'' (JDict [(''prefix'', JDict [(''_id'', JStr p)])])
                 else bool_clause)
      in JDict [
           (''size'', JInt 1000),
           (''sort'', JList [JDict [(''datetime'', JDict [(''order'', JStr ''desc'')])]]),
           (''query'', JDict [(''bool'', JDict bool_clause')])])"

definition search ::
  "'d externals \<Rightarrow> string \<Rightarrow> string option \<Rightarrow> world \<Rightarrow> (py_error + json) \<times> world" where
  "search ext project id_prefix w =
     es_search ext (elasticsearch_index (store w)) (elasticsearch_doctype (store w))
       (search_body project id_prefix) w"

subsection \<open>Reshaping the hits\<close>

text \<open>
  The loop \<^verbatim>\<open>for k in keys: result[k] = source[k]\<close> of the two static methods; it
  stops at the first key that the source lacks.
\<close>

fun copy_keys :: "string list \<Rightarrow> json \<Rightarrow> dict \<Rightarrow> py_error + dict" where
  "copy_keys [] source result = Inr result"
| "copy_keys (k # ks) source result =
     (case getitem source k of
        Inl e \<Rightarrow> Inl e
      | Inr v \<Rightarrow> copy_keys ks source (setitem result k v))"

definition benchmark_keys :: "string list" where
  "benchmark_keys = [''group'', ''stats'', ''options'', ''param'', ''name'', ''params'', ''fullname'']"

definition run_keys :: "string list" where
  "run_keys = [''machine_info'', ''commit_info'', ''datetime'', ''version'']"

definition benchmark_from_es_record :: "json \<Rightarrow> py_error + dict" where
  "benchmark_from_es_record source_es_record = copy_keys benchmark_keys source_es_record []"

definition run_info_from_es_record :: "json \<Rightarrow> py_error + dict" where
  "run_info_from_es_record source_es_record = copy_keys run_keys source_es_record []"

text \<open>
  The key of a hit's source document, \<^verbatim>\<open>"%s_%s" % (source_hit["commit_info"]["id"],
  source_hit["datetime"])\<close>, the tuple evaluated from left to right.
\<close>

definition commit_and_time :: "'d externals \<Rightarrow> json \<Rightarrow> py_error + string" where
  "commit_and_time ext source_hit =
     and_then (getitem source_hit ''commit_info'') (\<lambda>commit_info.
     and_then (getitem commit_info ''id'') (\<lambda>commit_id.
     and_then (getitem source_hit ''datetime'') (\<lambda>dt.
       Inr (percent_s (py_str ext) commit_id @ ''_'' @ percent_s (py_str ext) dt))))"

text \<open>\<^verbatim>\<open>run["benchmarks"].append(benchmark)\<close>, in place in the run's dict.\<close>

fun append_benchmark :: "json \<Rightarrow> json \<Rightarrow> py_error + json" where
  "append_benchmark (JDict run) benchmark =
     (case map_of run ''benchmarks'' of
        None \<Rightarrow> Inl (KeyError ''benchmarks'')
      | Some (JList bs) \<Rightarrow> Inr (JDict (setitem run ''benchmarks'' (JList (bs @ [benchmark]))))
      | Some _ \<Rightarrow> Inl TypeError)"
| "append_benchmark _ benchmark = Inl TypeError"

text \<open>One round of the loop of \<^verbatim>\<open>_group_by_commit_and_time\<close>.\<close>

definition group_hit :: "'d externals \<Rightarrow> json \<Rightarrow> dict \<Rightarrow> py_error + dict" where
  "group_hit ext hit result =
     and_then (getitem hit ''_source'') (\<lambda>source_hit.
     and_then (commit_and_time ext source_hit) (\<lambda>key.
     and_then (benchmark_from_es_record source_hit) (\<lambda>benchmark.
       case map_of result key of
         Some run \<Rightarrow>
           and_then (append_benchmark run (JDict benchmark)) (\<lambda>run'.
             Inr (setitem result key run'))
       | None \<Rightarrow>
           and_then (run_info_from_es_record source_hit) (\<lambda>run_info.
             Inr (setitem result key
                    (JDict (setitem run_info ''benchmarks'' (JList [JDict benchmark]))))))))"

fun group_hits :: "'d externals \<Rightarrow> json list \<Rightarrow> dict \<Rightarrow> py_error + dict" where
  "group_hits ext [] result = Inr result"
| "group_hits ext (hit # hits) result =
     (case group_hit ext hit result of
        Inl e \<Rightarrow> Inl e
      | Inr result' \<Rightarrow> group_hits ext hits result')"

definition group_by_commit_and_time :: "'d externals \<Rightarrow> json \<Rightarrow> py_error + dict" where
  "group_by_commit_and_time ext hits =
     and_then (py_iter hits) (\<lambda>hs. group_hits ext hs [])"

subsection \<open>Loading\<close>

text \<open>
  The sort key of \<^verbatim>\<open>load\<close>: \<^verbatim>\<open>strptime(x[1]["datetime"], "%Y-%m-%dT%H:%M:%S.%f")\<close>,
  a \<^verbatim>\<open>ValueError\<close> for a string that does not match and a \<^verbatim>\<open>TypeError\<close> for a value
  that is not a string.
\<close>

definition datetime_key :: "'d externals \<Rightarrow> string \<times> json \<Rightarrow> py_error + 'd" where
  "datetime_key ext x =
     and_then (getitem (snd x) ''datetime'') (\<lambda>dt.
       case dt of
         JStr s \<Rightarrow> (case strptime ext s of None \<Rightarrow> Inl ValueError | Some t \<Rightarrow> Inr t)
       | _ \<Rightarrow> Inl TypeError)"

text \<open>
  \<^verbatim>\<open>list.sort(key=f)\<close> first computes the key of every element, in list order (the first
  failure is raised and the list stays as it was), then sorts stably by the keys.
\<close>

fun all_keys :: "('a \<Rightarrow> py_error + 'k) \<Rightarrow> 'a list \<Rightarrow> py_error + 'k list" where
  "all_keys f [] = Inr []"
| "all_keys f (x # xs) =
     (case f x of
        Inl e \<Rightarrow> Inl e
      | Inr k \<Rightarrow> (case all_keys f xs of Inl e \<Rightarrow> Inl e | Inr ks \<Rightarrow> Inr (k # ks)))"

definition list_sort :: "('a \<Rightarrow> py_error + 'k::linorder) \<Rightarrow> 'a list \<Rightarrow> py_error + 'a list" where
  "list_sort f xs =
     and_then (all_keys f xs) (\<lambda>ks. Inr (map snd (sort_key fst (zip ks xs))))"

text \<open>
  A generator, run to its end: the items it yielded, and the exception that ended it, if
  one did.
\<close>

type_synonym 'a generated = "'a list \<times> py_error option"

text \<open>The body of \<^verbatim>\<open>load\<close> after the search: every \<^verbatim>\<open>yield\<close> comes after the sort.\<close>

definition load_result :: "'d::linorder externals \<Rightarrow> json \<Rightarrow> py_error + (string \<times> json) list" where
  "load_result ext r =
     and_then (getitem r ''hits'') (\<lambda>h.
     and_then (getitem h ''hits'') (\<lambda>hits.
     and_then (group_by_commit_and_time ext hits) (\<lambda>groupped_data.
       list_sort (datetime_key ext) groupped_data)))"

definition load ::
  "'d::linorder externals \<Rightarrow> string \<Rightarrow> string option \<Rightarrow> world \<Rightarrow> (string \<times> json) generated \<times> world" where
  "load ext project id_prefix w =
     (case search ext project id_prefix w of
        (Inl e, w') \<Rightarrow> (([], Some e), w')
      | (Inr r, w') \<Rightarrow>
          (case load_result ext r of
             Inl e \<Rightarrow> (([], Some e), w')
           | Inr result \<Rightarrow> ((result, None), w')))"

text \<open>
  The comprehension of \<^verbatim>\<open>query\<close> takes the first component of each pair that
  \<^verbatim>\<open>load\<close> yields; an exception of the generator ends it.
\<close>

fun first_components :: "(string \<times> json) list \<Rightarrow> string list" where
  "first_components [] = []"
| "first_components ((key, _) # rest) = key # first_components rest"

definition query :: "'d::linorder externals \<Rightarrow> string \<Rightarrow> world \<Rightarrow> (py_error + string list) \<times> world" where
  "query ext project w =
     (case load ext project None w of
        ((items, None), w') \<Rightarrow> (Inr (first_components items), w')
      | ((items, Some e), w') \<Rightarrow> (Inl e, w'))"

text \<open>
  \<^verbatim>\<open>load_benchmarks\<close> yields inside its loop, so the records of the hits before a
  malformed one have been yielded when the exception comes.
\<close>

fun yield_benchmarks :: "json list \<Rightarrow> json generated" where
  "yield_benchmarks [] = ([], None)"
| "yield_benchmarks (hit # hits) =
     (case and_then (getitem hit ''_source'') benchmark_from_es_record of
        Inl e \<Rightarrow> ([], Some e)
      | Inr benchmark \<Rightarrow>
          (case yield_benchmarks hits of (ys, stop) \<Rightarrow> (JDict benchmark # ys, stop)))"

definition load_benchmarks :: "'d externals \<Rightarrow> string \<Rightarrow> world \<Rightarrow> json generated \<times> world" where
  "load_benchmarks ext project w =
     (case search ext project None w of
        (Inl e, w') \<Rightarrow> (([], Some e), w')
      | (Inr r, w') \<Rightarrow>
          (case and_then (getitem r ''hits'') (\<lambda>h.
                and_then (getitem h ''hits'') py_iter) of
             Inl e \<Rightarrow> (([], Some e), w')
           | Inr hits \<Rightarrow> (yield_benchmarks hits, w')))"

subsection \<open>Saving and construction\<close>

definition save :: "'d externals \<Rightarrow> json \<Rightarrow> string \<Rightarrow> world \<Rightarrow> (py_error + unit) \<times> world" where
  "save ext document document_id w =
     (case es_index ext (elasticsearch_index (store w)) (elasticsearch_doctype (store w))
             document document_id w of
        (Inl e, w') \<Rightarrow> (Inl e, w')
      | (Inr _, w') \<Rightarrow> (Inr (), w'))"

text \<open>The index schema that \<^verbatim>\<open>_create_index\<close> sends.\<close>

definition mapping :: json where
  "mapping =
    JDict [
      (''mappings'', JDict [
        (''benchmark'', JDict [
          (''properties'', JDict [
            (''commit_info'', JDict [
              (''properties'', JDict [
                (''dirty'', JDict [
                  (''type'', JStr ''boolean'')]),
                (''id'', JDict [
                  (''type'', JStr ''string''),
                  (''index'', JStr ''not_analyzed'')]),
                (''project'', JDict [
                  (''type'', JStr ''string''),
                  (''index'', JStr ''not_analyzed'')])])]),
            (''datetime'', JDict [
              (''type'', JStr ''date''),
              (''format'', JStr ''strict_date_optional_time||epoch_millis'')]),
            (''name'', JDict [
              (''type'', JStr ''string''),
              (''index'', JStr ''not_analyzed'')]),
            (''fullname'', JDict [
              (''type'', JStr ''string''),
              (''index'', JStr ''not_analyzed'')]),
            (''version'', JDict [
              (''type'', JStr ''string''),
              (''index'', JStr ''not_analyzed'')]),
            (''machine_info'', JDict [
              (''properties'', JDict [
                (''machine'', JDict [
                  (''type'', JStr ''string''),
                  (''index'', JStr ''not_analyzed'')]),
                (''node'', JDict [
                  (''type'', JStr ''string''),
                  (''index'', JStr ''not_analyzed'')]),
                (''processor'', JDict [
                  (''type'', JStr ''string''),
                  (''index'', JStr ''not_analyzed'')]),
                (''python_build'', JDict [
                  (''type'', JStr ''string''),
                  (''index'', JStr ''not_analyzed'')]),
                (''python_compiler'', JDict [
                  (''type'', JStr ''string''),
                  (''index'', JStr ''not_analyzed'')]),
                (''python_implementation'', JDict [
                  (''type'', JStr ''string''),
                  (''index'', JStr ''not_analyzed'')]),
                (''python_implementation_version'', JDict [
                  (''type'', JStr ''string''),
                  (''index'', JStr ''not_analyzed'')]),
                (''python_version'', JDict [
                  (''type'', JStr ''string''),
                  (''index'', JStr ''not_analyzed'')]),
                (''release'', JDict [
                  (''type'', JStr ''string''),
                  (''index'', JStr ''not_analyzed'')]),
                (''system'', JDict [
                  (''type'', JStr ''string''),
                  (''index'', JStr ''not_analyzed'')])])]),
            (''options'', JDict [
              (''properties'', JDict [
                (''disable_gc'', JDict [
                  (''type'', JStr ''boolean'')]),
                (''max_time'', JDict [
                  (''type'', JStr ''double'')]),
                (''min_rounds'', JDict [
                  (''type'', JStr ''long'')]),
                (''min_time'', JDict [
                  (''type'', JStr ''double'')]),
                (''timer'', JDict [
                  (''type'', JStr ''string'')]),
                (''warmup'', JDict [
                  (''type'', JStr ''boolean'')])])]),
            (''stats'', JDict [
              (''properties'', JDict [
                (''hd15iqr'', JDict [
                  (''type'', JStr ''double'')]),
                (''iqr'', JDict [
                  (''type'', JStr ''double'')]),
                (''iqr_outliers'', JDict [
                  (''type'', JStr ''long'')]),
                (''iterations'', JDict [
                  (''type'', JStr ''long'')]),
                (''ld15iqr'', JDict [
                  (''type'', JStr ''double'')]),
                (''max'', JDict [
                  (''type'', JStr ''double'')]),
                (''mean'', JDict [
                  (''type'', JStr ''double'')]),
                (''median'', JDict [
                  (''type'', JStr ''double'')]),
                (''min'', JDict [
                  (''type'', JStr ''double'')]),
                (''outliers'', JDict [
                  (''type'', JStr ''string'')]),
                (''q1'', JDict [
                  (''type'', JStr ''double'')]),
                (''q3'', JDict [
                  (''type'', JStr ''double'')]),
                (''rounds'', JDict [
                  (''type'', JStr ''long'')]),
                (''stddev'', JDict [
                  (''type'', JStr ''double'')]),
                (''stddev_outliers'', JDict [
                  (''type'', JStr ''long'')])])])])])])]"

text \<open>
  \<^verbatim>\<open>indices.create(index=..., ignore=400, body=mapping)\<close>: the client is told not to
  raise on status 400, the status with which the engine refuses to create an index that
  exists already.
\<close>

definition create_index :: "'d externals \<Rightarrow> world \<Rightarrow> (py_error + unit) \<times> world" where
  "create_index ext w =
     (case es_indices_create ext (elasticsearch_index (store w)) [400] mapping w of
        (Inl e, w') \<Rightarrow> (Inl e, w')
      | (Inr _, w') \<Rightarrow> (Inr (), w'))"

text \<open>
  The constructor. A failed \<^verbatim>\<open>import elasticsearch\<close> is raised again as an
  \<^verbatim>\<open>ImportError\<close> of the original arguments and an install hint; otherwise the fields
  are assigned, the client is made (which sends nothing) and the index is created. An
  exception of \<^verbatim>\<open>_create_index\<close> leaves the constructor, and no store results.
\<close>

definition install_hint :: string where
  "install_hint = ''Please install elasticsearch or pytest-benchmark[elasticsearch]''"

definition init ::
  "'d externals \<Rightarrow> string list \<Rightarrow> string \<Rightarrow> string \<Rightarrow> string \<Rightarrow> string option \<Rightarrow>
     es_call list \<Rightarrow> (py_error + storage) \<times> es_call list" where
  "init ext hosts index doctype log machine_id wire0 =
     (case import_elasticsearch ext of
        Some args \<Rightarrow> (Inl (ImportError [JList args, JStr install_hint]), wire0)
      | None \<Rightarrow>
          (let self = \<lparr>elasticsearch_hosts = hosts, elasticsearch_index = index,
                       elasticsearch_doctype = doctype, elasticsearch = hosts,
                       default_machine_id = machine_id, logger = log, cache = []\<rparr>
           in case create_index ext \<lparr>store = self, wire = wire0\<rparr> of
                (Inl e, w') \<Rightarrow> (Inl e, wire w')
              | (Inr _, w') \<Rightarrow> (Inr (store w'), wire w')))"

section \<open>Vocabulary of the claims\<close>

text \<open>
  The definitions of this section belong to the statements, not to the program: they name the
  things the claims speak of in terms of the functions above.
\<close>

text \<open>
  The hits of a search response as the adapter's \<^verbatim>\<open>for\<close> statements see them: \<^verbatim>\<open>r["hits"]["hits"]\<close>,
  iterated.
\<close>

definition response_hits :: "json \<Rightarrow> py_error + json list" where
  "response_hits r = and_then (getitem r ''hits'') (\<lambda>h. and_then (getitem h ''hits'') py_iter)"

text \<open>
  A nested lookup \<^verbatim>\<open>v[k1][k2]...\<close>, used to read search bodies and engine answers.
\<close>

fun getpath :: "json \<Rightarrow> string list \<Rightarrow> py_error + json" where
  "getpath v [] = Inr v"
| "getpath v (k # ks) = (case getitem v k of Inl e \<Rightarrow> Inl e | Inr x \<Rightarrow> getpath x ks)"

text \<open>
  The key under which the grouping loop files a hit, and the benchmark record it builds from it.
\<close>

definition hit_key :: "'d externals \<Rightarrow> json \<Rightarrow> py_error + string" where
  "hit_key ext hit = and_then (getitem hit ''_source'') (commit_and_time ext)"

definition hit_benchmark :: "json \<Rightarrow> py_error + dict" where
  "hit_benchmark hit = and_then (getitem hit ''_source'') benchmark_from_es_record"

text \<open>
  The benchmark records of the hits of \<open>hs\<close> whose key is \<open>k\<close>, in the order of the hits.
\<close>

definition benchmarks_of :: "'d externals \<Rightarrow> string \<Rightarrow> json list \<Rightarrow> json" where
  "benchmarks_of ext k hs =
     JList (map (\<lambda>h. JDict (projr (hit_benchmark h))) (filter (\<lambda>h. hit_key ext h = Inr k) hs))"

text \<open>
  The run record for the key \<open>k\<close> over the hits \<open>hs\<close>: the run information of the first hit with
  that key, followed by the entry \<^verbatim>\<open>benchmarks\<close> with the benchmark records of all hits with that
  key.
\<close>

definition run_of :: "'d externals \<Rightarrow> string \<Rightarrow> json list \<Rightarrow> json \<Rightarrow> bool" where
  "run_of ext k hs run \<longleftrightarrow>
     (\<exists>h src info. find (\<lambda>h. hit_key ext h = Inr k) hs = Some h \<and>
        getitem h ''_source'' = Inr src \<and> run_info_from_es_record src = Inr info \<and>
        run = JDict (info @ [(''benchmarks'', benchmarks_of ext k hs)]))"

text \<open>
  The invariant of the grouping loop after the hits \<open>hs\<close>: the keys of the result are unique and
  are exactly the keys of the hits, every hit had a key and a benchmark record, and each key is
  bound to its run record.
\<close>

definition grouped :: "'d externals \<Rightarrow> json list \<Rightarrow> dict \<Rightarrow> bool" where
  "grouped ext hs res \<longleftrightarrow>
     distinct (map fst res) \<and>
     (\<forall>h\<in>set hs. \<not> isl (hit_key ext h) \<and> \<not> isl (hit_benchmark h)) \<and>
     (\<forall>k. k \<in> fst ` set res \<longleftrightarrow> (\<exists>h\<in>set hs. hit_key ext h = Inr k)) \<and>
     (\<forall>k run. map_of res k = Some run \<longrightarrow> run_of ext k hs run)"

text \<open>
  Documents as the plugin saves them: a hit whose source has the seven benchmark fields, and a
  hit whose source has these, the four run fields, a commit id, and a timestamp string that
  \<^verbatim>\<open>strptime\<close> accepts.
\<close>

definition has_benchmark_fields :: "json \<Rightarrow> bool" where
  "has_benchmark_fields hit =
     (case getitem hit ''_source'' of
        Inl e \<Rightarrow> False
      | Inr src \<Rightarrow> list_all (\<lambda>k. \<not> isl (getitem src k)) benchmark_keys)"

definition well_formed :: "'d externals \<Rightarrow> json \<Rightarrow> bool" where
  "well_formed ext hit =
     (case getitem hit ''_source'' of
        Inl e \<Rightarrow> False
      | Inr src \<Rightarrow>
          list_all (\<lambda>k. \<not> isl (getitem src k)) (benchmark_keys @ run_keys) \<and>
          \<not> isl (and_then (getitem src ''commit_info'') (\<lambda>c. getitem c ''id'')) \<and>
          (case getitem src ''datetime'' of
             Inr (JStr s) \<Rightarrow> strptime ext s \<noteq> None
           | _ \<Rightarrow> False))"

text \<open>
  The words of claim C1, written down independently of the adapter's functions. The key of a
  hit is \<^verbatim>\<open>commit_info.id + "_" + datetime\<close>, both read from the hit's source and both
  strings. The benchmark sub-record of a hit is the dict of the seven benchmark fields with the
  values of the hit's source. A yielded pair has the parsed timestamp \<open>t\<close> when the
  \<^verbatim>\<open>datetime\<close> of its record is a string that \<^verbatim>\<open>strptime\<close> maps to \<open>t\<close>.
\<close>

definition commit_time_key :: "json \<Rightarrow> string option" where
  "commit_time_key hit =
     (case (getpath hit [''_source'', ''commit_info'', ''id''], getpath hit [''_source'', ''datetime'']) of
        (Inr (JStr commit_id), Inr (JStr dt)) \<Rightarrow> Some (commit_id @ ''_'' @ dt)
      | _ \<Rightarrow> None)"

fun sub_record :: "string list \<Rightarrow> json \<Rightarrow> dict option" where
  "sub_record [] source = Some []"
| "sub_record (k # ks) source =
     (case getitem source k of
        Inl e \<Rightarrow> None
      | Inr v \<Rightarrow> (case sub_record ks source of None \<Rightarrow> None | Some rest \<Rightarrow> Some ((k, v) # rest)))"

definition benchmark_sub_record :: "json \<Rightarrow> json option" where
  "benchmark_sub_record hit =
     (case getitem hit ''_source'' of
        Inl e \<Rightarrow> None
      | Inr source \<Rightarrow>
          map_option JDict
            (sub_record [''group'', ''stats'', ''options'', ''param'', ''name'', ''params'', ''fullname'']
               source))"

definition parsed_datetime :: "'d externals \<Rightarrow> string \<times> json \<Rightarrow> 'd \<Rightarrow> bool" where
  "parsed_datetime ext x t \<longleftrightarrow>
     (\<exists>s. getitem (snd x) ''datetime'' = Inr (JStr s) \<and> strptime ext s = Some t)"

text \<open>
  A document as the plugin saves it (see \<open>well_formed\<close>) whose commit id is a string, as the
  index schema declares it.
\<close>

definition saved_document :: "'d externals \<Rightarrow> json \<Rightarrow> bool" where
  "saved_document ext hit \<longleftrightarrow>
     well_formed ext hit \<and>
     (case getpath hit [''_source'', ''commit_info'', ''id''] of Inr (JStr c) \<Rightarrow> True | _ \<Rightarrow> False)"

text \<open>
  The identifier of a hit starts with \<open>p\<close>; and an answer \<open>hs\<close> of the engine honours the prefix
  clause of the request body (when the body has one, every hit's identifier starts with it).
\<close>

definition has_id_prefix :: "string \<Rightarrow> json \<Rightarrow> bool" where
  "has_id_prefix p hit = (case getitem hit ''_id'' of Inr (JStr i) \<Rightarrow> take (length p) i = p | _ \<Rightarrow> False)"

definition honours_prefix :: "json \<Rightarrow> json list \<Rightarrow> bool" where
  "honours_prefix body hs =
     (case getpath body [''query'', ''bool'', ''must'', ''prefix'', ''_id''] of
        Inr (JStr p) \<Rightarrow> list_all (has_id_prefix p) hs
      | _ \<Rightarrow> True)"

text \<open>
  An answer to \<^verbatim>\<open>indices.create\<close> that is a failure, and one that is the failure "the index
  exists already" (status 400 with this error type; the type's name changed between versions
  of the engine).
\<close>

definition creation_failed :: "es_raw \<Rightarrow> bool" where
  "creation_failed raw = (case raw of NoAnswer \<Rightarrow> True | Http status body \<Rightarrow> \<not> (200 \<le> status \<and> status < 300))"

definition already_exists :: "es_raw \<Rightarrow> bool" where
  "already_exists raw =
     (case raw of
        NoAnswer \<Rightarrow> False
      | Http status body \<Rightarrow>
          status = 400 \<and>
          getpath body [''error'', ''type'']
            \<in> {Inr (JStr ''index_already_exists_exception''),
                Inr (JStr ''resource_already_exists_exception'')})"

section \<open>An example engine\<close>

text \<open>
  A small concrete setting on which the statements are evaluated: one project with three stored
  benchmark documents, two of which belong to the same run, and an engine that answers a
  search with the stored hits, filtered by the prefix clause when the request has one.
\<close>

text \<open>
  A stand-in for \<^verbatim>\<open>strptime\<close> on the examples: it accepts the fixed-width form
  \<^verbatim>\<open>YYYY-MM-DDTHH:MM:SS.ffffff\<close> and returns the digits read as one number, which orders these
  strings by time. The theorems hold for every parser; this one only feeds the examples.
\<close>

definition digit_value :: "char \<Rightarrow> int option" where
  "digit_value c = (let n = of_char c in if 48 \<le> n \<and> n \<le> (57::int) then Some (n - 48) else None)"

fun digits_value :: "int \<Rightarrow> string \<Rightarrow> int option" where
  "digits_value acc [] = Some acc"
| "digits_value acc (c # cs) =
     (case digit_value c of None \<Rightarrow> None | Some d \<Rightarrow> digits_value (10 * acc + d) cs)"

definition example_strptime :: "string \<Rightarrow> int option" where
  "example_strptime s =
     (if length s = 26 \<and> map (\<lambda>i. s ! i) [4, 7, 10, 13, 16, 19] = ''--T::.''
      then digits_value 0 (filter (\<lambda>c. c \<notin> set ''-T:.'') s)
      else None)"

text \<open>
  A stored document with the given test name, timestamp, machine node and tool version; a hit
  with a document identifier; and the three stored hits in the engine's (descending) order.
\<close>

definition example_source :: "string \<Rightarrow> string \<Rightarrow> string \<Rightarrow> string \<Rightarrow> json" where
  "example_source name dt node ver = JDict [
     (''group'', JNull),
     (''stats'', JDict [(''rounds'', JInt 5), (''min'', JFloat 3 (-10))]),
     (''options'', JDict [(''disable_gc'', JBool False)]),
     (''param'', JNull),
     (''name'', JStr name),
     (''params'', JNull),
     (''fullname'', JStr (''tests/test_x.py::'' @ name)),
     (''machine_info'', JDict [(''node'', JStr node)]),
     (''commit_info'', JDict [(''id'', JStr ''abc123''), (''project'', JStr ''demo''), (''dirty'', JBool False)]),
     (''datetime'', JStr dt),
     (''version'', JStr ver)]"

definition example_hit :: "string \<Rightarrow> json \<Rightarrow> json" where
  "example_hit doc_id source = JDict [(''_index'', JStr ''benchmark''), (''_id'', JStr doc_id), (''_source'', source)]"

definition example_hits :: "json list" where
  "example_hits = [
     example_hit ''abc123_r2_a'' (example_source ''test_a'' ''2020-01-02T00:00:00.000000'' ''n1'' ''3.1''),
     example_hit ''abc123_r1_b'' (example_source ''test_b'' ''2020-01-01T00:00:00.000000'' ''n1'' ''3.1''),
     example_hit ''abc123_r1_c'' (example_source ''test_c'' ''2020-01-01T00:00:00.000000'' ''n2'' ''3.2'')]"

text \<open>
  The hits whose identifier starts with \<^verbatim>\<open>abc123_r1\<close>, and a result set with a timestamp in
  another format.
\<close>

definition example_hits_r1 :: "json list" where
  "example_hits_r1 = [
     example_hit ''abc123_r1_b'' (example_source ''test_b'' ''2020-01-01T00:00:00.000000'' ''n1'' ''3.1''),
     example_hit ''abc123_r1_c'' (example_source ''test_c'' ''2020-01-01T00:00:00.000000'' ''n2'' ''3.2'')]"

definition example_bad_hits :: "json list" where
  "example_bad_hits = [
     example_hit ''abc123_r2_a'' (example_source ''test_a'' ''2020-01-02T00:00:00.000000'' ''n1'' ''3.1''),
     example_hit ''abc123_r0_z'' (example_source ''test_z'' ''2020-01-01 00:00'' ''n1'' ''3.1'')]"

text \<open>
  The records the adapter is expected to build from the example documents.
\<close>

definition example_benchmark :: "string \<Rightarrow> json" where
  "example_benchmark name = JDict [
     (''group'', JNull),
     (''stats'', JDict [(''rounds'', JInt 5), (''min'', JFloat 3 (-10))]),
     (''options'', JDict [(''disable_gc'', JBool False)]),
     (''param'', JNull),
     (''name'', JStr name),
     (''params'', JNull),
     (''fullname'', JStr (''tests/test_x.py::'' @ name))]"

definition example_run :: "string \<Rightarrow> string \<Rightarrow> string \<Rightarrow> json list \<Rightarrow> json" where
  "example_run dt node ver benchmarks = JDict [
     (''machine_info'', JDict [(''node'', JStr node)]),
     (''commit_info'', JDict [(''id'', JStr ''abc123''), (''project'', JStr ''demo''), (''dirty'', JBool False)]),
     (''datetime'', JStr dt),
     (''version'', JStr ver),
     (''benchmarks'', JList benchmarks)]"

text \<open>
  The example engine: a search is answered with the stored hits (those matching the prefix
  clause, if the body has one), an index call succeeds, and creating the index is refused
  because it exists.
\<close>

definition example_respond :: "json list \<Rightarrow> es_call list \<Rightarrow> es_call \<Rightarrow> es_raw" where
  "example_respond docs sent call =
     (case call of
        Search index doc_type body \<Rightarrow>
          Http 200 (JDict [(''hits'', JDict [(''hits'', JList
            (case getpath body [''query'', ''bool'', ''must'', ''prefix'', ''_id''] of
               Inr (JStr p) \<Rightarrow> filter (has_id_prefix p) docs
             | _ \<Rightarrow> docs))])])
      | Index index doc_type body doc_id \<Rightarrow> Http 201 (JDict [(''created'', JBool True)])
      | IndicesCreate index body \<Rightarrow>
          Http 400 (JDict [(''error'', JDict [(''type'', JStr ''index_already_exists_exception'')]),
                           (''status'', JInt 400)]))"

definition example_ext :: "json list \<Rightarrow> int externals" where
  "example_ext docs = \<lparr>respond = example_respond docs, py_str = (\<lambda>v. ''?''), strptime = example_strptime,
                  import_elasticsearch = None\<rparr>"

definition example_store :: storage where
  "example_store = \<lparr>elasticsearch_hosts = [''localhost:9200''], elasticsearch_index = ''benchmark'',
      elasticsearch_doctype = ''benchmark'', elasticsearch = [''localhost:9200''], default_machine_id = None,
      logger = ''log'', cache = []\<rparr>"

definition example_world :: world where
  "example_world = \<lparr>store = example_store, wire = []\<rparr>"

text \<open>
  An engine that refuses to create the index because it cannot parse the mapping, which is
  also a status 400; and a setting in which the client library is not installed.
\<close>

definition bad_mapping_answer :: es_raw where
  "bad_mapping_answer =
     Http 400 (JDict [(''error'', JDict [(''type'', JStr ''mapper_parsing_exception'')]),
                      (''status'', JInt 400)])"

definition rejecting_ext :: "int externals" where
  "rejecting_ext = (example_ext [])\<lparr>respond := (\<lambda>sent call. bad_mapping_answer)\<rparr>"

definition unimportable_ext :: "int externals" where
  "unimportable_ext =
     (example_ext [])\<lparr>import_elasticsearch := Some [JStr ''No module named elasticsearch'']\<rparr>"

text \<open>
  A second result set, with two commits at one timestamp: four hits of three runs. Machine and
  version are the same throughout; \<open>commit_run\<close> is the record expected for a commit and a
  timestamp.
\<close>

definition commit_source :: "string \<Rightarrow> string \<Rightarrow> string \<Rightarrow> json" where
  "commit_source commit name dt = JDict [
     (''group'', JNull),
     (''stats'', JDict [(''rounds'', JInt 5), (''min'', JFloat 3 (-10))]),
     (''options'', JDict [(''disable_gc'', JBool False)]),
     (''param'', JNull),
     (''name'', JStr name),
     (''params'', JNull),
     (''fullname'', JStr (''tests/test_x.py::'' @ name)),
     (''machine_info'', JDict [(''node'', JStr ''n1'')]),
     (''commit_info'', JDict [(''id'', JStr commit), (''project'', JStr ''demo''), (''dirty'', JBool False)]),
     (''datetime'', JStr dt),
     (''version'', JStr ''3.1'')]"

definition two_commit_hits :: "json list" where
  "two_commit_hits = [
     example_hit ''aaa_r2_a'' (commit_source ''aaa'' ''test_a'' ''2020-01-02T00:00:00.000000''),
     example_hit ''aaa_r1_b'' (commit_source ''aaa'' ''test_b'' ''2020-01-01T00:00:00.000000''),
     example_hit ''bbb_r1_c'' (commit_source ''bbb'' ''test_c'' ''2020-01-01T00:00:00.000000''),
     example_hit ''aaa_r1_d'' (commit_source ''aaa'' ''test_d'' ''2020-01-01T00:00:00.000000'')]"

definition commit_run :: "string \<Rightarrow> string \<Rightarrow> json list \<Rightarrow> json" where
  "commit_run commit dt benchmarks = JDict [
     (''machine_info'', JDict [(''node'', JStr ''n1'')]),
     (''commit_info'', JDict [(''id'', JStr commit), (''project'', JStr ''demo''), (''dirty'', JBool False)]),
     (''datetime'', JStr dt),
     (''version'', JStr ''3.1''),
     (''benchmarks'', JList benchmarks)]"

section \<open>Lemmas\<close>

subsection \<open>Dictionaries and copied fields\<close>

lemma and_then_Inr: "and_then m f = Inr y \<longleftrightarrow> (\<exists>x. m = Inr x \<and> f x = Inr y)"
  by (cases m) (simp_all add: and_then_def)

lemma map_of_setitem: "map_of (setitem d k v) = (map_of d)(k \<mapsto> v)"
  by (simp add: setitem_def update_conv')

lemma distinct_setitem: "distinct (map fst d) \<Longrightarrow> distinct (map fst (setitem d k v))"
  by (simp add: setitem_def distinct_update)

lemma setitem_fresh: "k \<notin> fst ` set d \<Longrightarrow> setitem d k v = d @ [(k, v)]"
  by (induction d) (auto simp: setitem_def)

lemma setitem_last: "k \<notin> fst ` set d \<Longrightarrow> setitem (d @ [(k, v)]) k v' = d @ [(k, v')]"
  by (induction d) (auto simp: setitem_def)

lemma fst_set_setitem: "fst ` set (setitem d k v) = insert k (fst ` set d)"
  by (induction d) (auto simp: setitem_def)

lemma find_append:
  "find P (xs @ ys) = (case find P xs of None \<Rightarrow> find P ys | Some x \<Rightarrow> Some x)"
  by (induction xs) simp_all

lemma copy_keys_total:
  "\<forall>k\<in>set ks. \<not> isl (getitem src k) \<Longrightarrow> \<exists>d. copy_keys ks src acc = Inr d"
  by (induction ks arbitrary: acc) (auto split: sum.splits)

lemma run_info_Inr:
  assumes "run_info_from_es_record src = Inr info"
  shows "\<exists>a b c d. info = [(''machine_info'', a), (''commit_info'', b), (''datetime'', c), (''version'', d)]
           \<and> getitem src ''machine_info'' = Inr a \<and> getitem src ''commit_info'' = Inr b
           \<and> getitem src ''datetime'' = Inr c \<and> getitem src ''version'' = Inr d"
  using assms
  by (simp add: run_info_from_es_record_def run_keys_def setitem_def split: sum.splits)

lemma benchmark_Inr:
  assumes "benchmark_from_es_record src = Inr b"
  shows "\<exists>v1 v2 v3 v4 v5 v6 v7.
           b = [(''group'', v1), (''stats'', v2), (''options'', v3), (''param'', v4), (''name'', v5),
                (''params'', v6), (''fullname'', v7)]
           \<and> getitem src ''group'' = Inr v1 \<and> getitem src ''stats'' = Inr v2
           \<and> getitem src ''options'' = Inr v3 \<and> getitem src ''param'' = Inr v4
           \<and> getitem src ''name'' = Inr v5 \<and> getitem src ''params'' = Inr v6
           \<and> getitem src ''fullname'' = Inr v7"
  using assms
  by (simp add: benchmark_from_es_record_def benchmark_keys_def setitem_def split: sum.splits)

lemma run_info_no_benchmarks:
  "run_info_from_es_record src = Inr info \<Longrightarrow> ''benchmarks'' \<notin> fst ` set info"
  by (drule run_info_Inr) auto

subsection \<open>The grouping loop\<close>

lemma group_hits_append:
  "group_hits ext (xs @ ys) acc = and_then (group_hits ext xs acc) (group_hits ext ys)"
  by (induction xs arbitrary: acc) (simp_all add: and_then_def split: sum.splits)

lemma group_hits_single: "group_hits ext [h] res = group_hit ext h res"
  by (cases "group_hit ext h res") simp_all

lemma group_hits_snoc_Inr:
  "group_hits ext (hs @ [h]) acc = Inr res' \<longleftrightarrow>
     (\<exists>res. group_hits ext hs acc = Inr res \<and> group_hit ext h res = Inr res')"
  by (simp only: group_hits_append and_then_Inr group_hits_single)

lemma run_of_other:
  assumes "run_of ext k hs run" and "hit_key ext h \<noteq> Inr k"
  shows "run_of ext k (hs @ [h]) run"
  using assms by (auto simp: run_of_def benchmarks_of_def find_append)

lemma grouped_step:
  assumes inv: "grouped ext hs res" and step: "group_hit ext h res = Inr res'"
  shows "grouped ext (hs @ [h]) res'"
proof -
  from step obtain src key b where
    src: "getitem h ''_source'' = Inr src" and key: "commit_and_time ext src = Inr key"
    and b: "benchmark_from_es_record src = Inr b"
    and rest: "(case map_of res key of
         Some run \<Rightarrow>
           and_then (append_benchmark run (JDict b)) (\<lambda>run'. Inr (setitem res key run'))
       | None \<Rightarrow>
           and_then (run_info_from_es_record src) (\<lambda>run_info.
             Inr (setitem res key
                    (JDict (setitem run_info ''benchmarks'' (JList [JDict b])))))) = Inr res'"
    unfolding group_hit_def and_then_Inr by blast
  have hk: "hit_key ext h = Inr key" by (simp add: hit_key_def src key and_then_def)
  have hb: "hit_benchmark h = Inr b" by (simp add: hit_benchmark_def src b and_then_def)
  have "\<exists>run'. res' = setitem res key run' \<and> run_of ext key (hs @ [h]) run'"
  proof (cases "map_of res key")
    case None
    with rest obtain info where info: "run_info_from_es_record src = Inr info"
      and res': "res' = setitem res key (JDict (setitem info ''benchmarks'' (JList [JDict b])))"
      by (auto simp: and_then_Inr)
    from None have "key \<notin> fst ` set res" by (simp add: map_of_eq_None_iff)
    with inv have nokey: "\<forall>h'\<in>set hs. hit_key ext h' \<noteq> Inr key" by (auto simp: grouped_def)
    then have f1: "filter (\<lambda>h. hit_key ext h = Inr key) hs = []" by (auto simp: filter_empty_conv)
    from nokey have f2: "find (\<lambda>h. hit_key ext h = Inr key) hs = None" by (auto simp: find_None_iff)
    have "setitem info ''benchmarks'' (JList [JDict b]) = info @ [(''benchmarks'', JList [JDict b])]"
      by (rule setitem_fresh) (rule run_info_no_benchmarks [OF info])
    moreover have "run_of ext key (hs @ [h]) (JDict (info @ [(''benchmarks'', JList [JDict b])]))"
      by (simp add: run_of_def benchmarks_of_def find_append f1 f2 hk hb src info)
    ultimately show ?thesis using res' by auto
  next
    case (Some run)
    with inv have "run_of ext key hs run" by (simp add: grouped_def)
    then obtain h0 src0 info where h0: "find (\<lambda>h. hit_key ext h = Inr key) hs = Some h0"
      and src0: "getitem h0 ''_source'' = Inr src0" and info: "run_info_from_es_record src0 = Inr info"
      and run: "run = JDict (info @ [(''benchmarks'', benchmarks_of ext key hs)])"
      by (auto simp: run_of_def)
    have nb: "''benchmarks'' \<notin> fst ` set info" by (rule run_info_no_benchmarks [OF info])
    then have look: "map_of (info @ [(''benchmarks'', v)]) ''benchmarks'' = Some v" for v
      by (simp add: map_add_def map_of_eq_None_iff [THEN iffD2])
    have app: "append_benchmark run (JDict b) =
        Inr (JDict (info @ [(''benchmarks'', benchmarks_of ext key (hs @ [h]))]))"
      unfolding run using nb
      by (simp add: look benchmarks_of_def setitem_last hk hb del: map_of_append)
    have "run_of ext key (hs @ [h]) (JDict (info @ [(''benchmarks'', benchmarks_of ext key (hs @ [h]))]))"
      by (simp add: run_of_def find_append h0 src0 info)
    with rest Some app show ?thesis by (auto simp: and_then_def)
  qed
  then obtain run' where res': "res' = setitem res key run'" and run': "run_of ext key (hs @ [h]) run'"
    by blast
  have 1: "distinct (map fst res')" using inv by (simp add: res' grouped_def distinct_setitem)
  have 2: "\<forall>h'\<in>set (hs @ [h]). \<not> isl (hit_key ext h') \<and> \<not> isl (hit_benchmark h')"
    using inv hk hb by (auto simp: grouped_def)
  have 3: "\<forall>k. k \<in> fst ` set res' \<longleftrightarrow> (\<exists>h'\<in>set (hs @ [h]). hit_key ext h' = Inr k)"
    using inv hk unfolding res' fst_set_setitem grouped_def by auto
  have 4: "\<forall>k run. map_of res' k = Some run \<longrightarrow> run_of ext k (hs @ [h]) run"
  proof (intro allI impI)
    fix k run assume m: "map_of res' k = Some run"
    show "run_of ext k (hs @ [h]) run"
    proof (cases "k = key")
      case True
      with m run' show ?thesis by (simp add: res' map_of_setitem)
    next
      case False
      with m have "map_of res k = Some run" by (simp add: res' map_of_setitem)
      with inv have "run_of ext k hs run" by (simp add: grouped_def)
      then show ?thesis using False hk by (intro run_of_other) auto
    qed
  qed
  show ?thesis unfolding grouped_def using 1 2 3 4 by blast
qed

lemma group_hits_grouped:
  "group_hits ext hs [] = Inr res \<Longrightarrow> grouped ext hs res"
proof (induction hs arbitrary: res rule: rev_induct)
  case Nil
  then show ?case by (simp add: grouped_def)
next
  case (snoc h hs)
  then show ?case by (auto simp: group_hits_snoc_Inr intro: grouped_step)
qed

lemma run_of_fields:
  assumes "run_of ext k hs run"
  shows "\<exists>h src. find (\<lambda>h. hit_key ext h = Inr k) hs = Some h \<and> getitem h ''_source'' = Inr src \<and>
           (\<forall>f\<in>set run_keys. getitem run f = getitem src f) \<and>
           (\<exists>d. run = JDict d \<and> map fst d = run_keys @ [''benchmarks'']) \<and>
           getitem run ''benchmarks'' = Inr (benchmarks_of ext k hs)"
proof -
  from assms obtain h src info where h: "find (\<lambda>h. hit_key ext h = Inr k) hs = Some h"
    and src: "getitem h ''_source'' = Inr src" and info: "run_info_from_es_record src = Inr info"
    and run: "run = JDict (info @ [(''benchmarks'', benchmarks_of ext k hs)])"
    by (auto simp: run_of_def)
  from run_info_Inr [OF info] obtain a b c d where
    "info = [(''machine_info'', a), (''commit_info'', b), (''datetime'', c), (''version'', d)]"
    "getitem src ''machine_info'' = Inr a" "getitem src ''commit_info'' = Inr b"
    "getitem src ''datetime'' = Inr c" "getitem src ''version'' = Inr d"
    by blast
  then have "(\<forall>f\<in>set run_keys. getitem run f = getitem src f) \<and>
      (\<exists>d. run = JDict d \<and> map fst d = run_keys @ [''benchmarks'']) \<and>
      getitem run ''benchmarks'' = Inr (benchmarks_of ext k hs)"
    by (simp add: run run_keys_def)
  with h src show ?thesis by blast
qed

lemma group_by_alt:
  "group_by_commit_and_time ext hits = Inr g \<longleftrightarrow>
     (\<exists>hs. py_iter hits = Inr hs \<and> group_hits ext hs [] = Inr g)"
  by (simp add: group_by_commit_and_time_def and_then_Inr)

lemma well_formed_parts:
  assumes "well_formed ext h"
  shows "\<exists>src key b info s t. getitem h ''_source'' = Inr src \<and> commit_and_time ext src = Inr key \<and>
           benchmark_from_es_record src = Inr b \<and> run_info_from_es_record src = Inr info \<and>
           getitem src ''datetime'' = Inr (JStr s) \<and> strptime ext s = Some t"
proof -
  from assms obtain src where src: "getitem h ''_source'' = Inr src"
    and fields: "list_all (\<lambda>k. \<not> isl (getitem src k)) (benchmark_keys @ run_keys)"
    and cid: "\<not> isl (and_then (getitem src ''commit_info'') (\<lambda>c. getitem c ''id''))"
    and dt: "(case getitem src ''datetime'' of Inr (JStr s) \<Rightarrow> strptime ext s \<noteq> None | _ \<Rightarrow> False)"
    by (auto simp: well_formed_def split: sum.splits)
  from dt obtain s t where s: "getitem src ''datetime'' = Inr (JStr s)" and t: "strptime ext s = Some t"
    by (auto split: sum.splits json.splits)
  from cid obtain c where c: "getitem src ''commit_info'' = Inr c"
    by (cases "getitem src ''commit_info''") (auto simp: and_then_def)
  with cid obtain i where "getitem c ''id'' = Inr i"
    by (cases "getitem c ''id''") (auto simp: and_then_def)
  with c s have "\<exists>key. commit_and_time ext src = Inr key"
    by (simp add: commit_and_time_def and_then_def)
  moreover from fields have "\<exists>b. benchmark_from_es_record src = Inr b"
    unfolding benchmark_from_es_record_def by (intro copy_keys_total) (simp add: list_all_iff)
  moreover from fields have "\<exists>info. run_info_from_es_record src = Inr info"
    unfolding run_info_from_es_record_def by (intro copy_keys_total) (simp add: list_all_iff)
  ultimately show ?thesis using src s t by blast
qed

lemma append_benchmark_run_of:
  assumes "run_of ext k hs run"
  shows "\<exists>run'. append_benchmark run b = Inr run'"
proof -
  from assms obtain info src where info: "run_info_from_es_record src = Inr info"
    and run: "run = JDict (info @ [(''benchmarks'', benchmarks_of ext k hs)])"
    by (auto simp: run_of_def)
  have "''benchmarks'' \<notin> fst ` set info" by (rule run_info_no_benchmarks [OF info])
  then have "map_of (info @ [(''benchmarks'', v)]) ''benchmarks'' = Some v" for v
    by (simp add: map_add_def map_of_eq_None_iff [THEN iffD2])
  then show ?thesis unfolding run by (simp add: benchmarks_of_def del: map_of_append)
qed

lemma group_hit_total:
  assumes "grouped ext hs res" and "well_formed ext h"
  shows "\<exists>res'. group_hit ext h res = Inr res'"
proof -
  from well_formed_parts [OF assms(2)] obtain src key b info where
    p: "getitem h ''_source'' = Inr src" "commit_and_time ext src = Inr key"
       "benchmark_from_es_record src = Inr b" "run_info_from_es_record src = Inr info"
    by blast
  show ?thesis
  proof (cases "map_of res key")
    case None
    with p show ?thesis by (simp add: group_hit_def and_then_def)
  next
    case (Some run)
    with assms(1) have "run_of ext key hs run" by (simp add: grouped_def)
    from append_benchmark_run_of [OF this] obtain run' where
      "append_benchmark run (JDict b) = Inr run'" by blast
    with p Some show ?thesis by (simp add: group_hit_def and_then_def)
  qed
qed

lemma group_hits_total:
  "list_all (well_formed ext) hs \<Longrightarrow> \<exists>res. group_hits ext hs [] = Inr res"
proof (induction hs rule: rev_induct)
  case Nil
  then show ?case by simp
next
  case (snoc h hs)
  then obtain res where res: "group_hits ext hs [] = Inr res" by auto
  from snoc.prems have "well_formed ext h" by simp
  from group_hit_total [OF group_hits_grouped [OF res] this] res
  show ?case by (simp add: group_hits_snoc_Inr)
qed

subsection \<open>Sorting by a key that may raise\<close>

lemma all_keys_Inr: "all_keys f xs = Inr ks \<longleftrightarrow> list_all2 (\<lambda>x k. f x = Inr k) xs ks"
proof (induction xs arbitrary: ks)
  case Nil
  then show ?case by auto
next
  case (Cons x xs)
  show ?case
  proof (cases ks)
    case Nil
    then show ?thesis by (simp split: sum.splits)
  next
    case (Cons k ks')
    have "all_keys f (x # xs) = Inr (k # ks') \<longleftrightarrow> f x = Inr k \<and> all_keys f xs = Inr ks'"
      by (simp split: sum.splits)
    then show ?thesis by (simp add: Cons Cons.IH)
  qed
qed

lemma all_keys_Inl: "all_keys f xs = Inl e \<Longrightarrow> \<exists>x\<in>set xs. f x = Inl e"
  by (induction xs) (auto split: sum.splits)

lemma all_keys_fails: "x \<in> set xs \<Longrightarrow> isl (f x) \<Longrightarrow> isl (all_keys f xs)"
  by (induction xs) (auto split: sum.splits)

lemma all_keys_total: "\<forall>x\<in>set xs. \<not> isl (f x) \<Longrightarrow> \<exists>ks. all_keys f xs = Inr ks"
  by (induction xs) (auto split: sum.splits simp: isl_def)

lemma all_keys_zip:
  "\<forall>(k, x)\<in>set zs. f x = Inr k \<Longrightarrow> all_keys f (map snd zs) = Inr (map fst zs)"
  by (induction zs) auto

lemma list_sort_Inr:
  assumes "list_sort f xs = Inr ys"
  shows "mset ys = mset xs" and "\<exists>ts. all_keys f ys = Inr ts \<and> sorted ts"
proof -
  from assms obtain ks where ks: "all_keys f xs = Inr ks"
    and ys: "ys = map snd (sort_key fst (zip ks xs))"
    by (auto simp: list_sort_def and_then_Inr)
  from ks have rel: "list_all2 (\<lambda>x k. f x = Inr k) xs ks" by (simp add: all_keys_Inr)
  then have len: "length xs = length ks" by (rule list_all2_lengthD)
  have "mset ys = image_mset snd (mset (zip ks xs))" by (simp add: ys)
  also have "\<dots> = mset (map snd (zip ks xs))" by simp
  also have "\<dots> = mset xs" using len by simp
  finally show "mset ys = mset xs" .
  have "\<forall>(k, x)\<in>set (zip ks xs). f x = Inr k"
    using rel by (auto simp: list_all2_conv_all_nth in_set_zip)
  then have "\<forall>(k, x)\<in>set (sort_key fst (zip ks xs)). f x = Inr k" by simp
  then have "all_keys f ys = Inr (map fst (sort_key fst (zip ks xs)))"
    unfolding ys by (rule all_keys_zip)
  then show "\<exists>ts. all_keys f ys = Inr ts \<and> sorted ts" by simp
qed

lemma list_sort_Inl:
  "list_sort f xs = Inl e \<longleftrightarrow> all_keys f xs = Inl e"
  by (auto simp: list_sort_def and_then_def split: sum.splits)

subsection \<open>Requests on the wire\<close>

lemma search_wire:
  "snd (search ext project id_prefix w) =
     w\<lparr>wire := wire w @ [Search (elasticsearch_index (store w)) (elasticsearch_doctype (store w))
                            (search_body project id_prefix)]\<rparr>"
  by (simp add: search_def es_search_def perform_request_def)

lemma search_result:
  "search ext project id_prefix w = (Inr r, w') \<longleftrightarrow>
     (\<exists>status. respond ext (wire w)
        (Search (elasticsearch_index (store w)) (elasticsearch_doctype (store w))
           (search_body project id_prefix)) = Http status r \<and> 200 \<le> status \<and> status < 300) \<and>
     w' = w\<lparr>wire := wire w @ [Search (elasticsearch_index (store w)) (elasticsearch_doctype (store w))
                            (search_body project id_prefix)]\<rparr>"
  by (auto simp: search_def es_search_def perform_request_def split: es_raw.splits if_splits)

lemma search_body_prefix:
  "p \<noteq> [] \<Longrightarrow>
   getpath (search_body project (Some p)) [''query'', ''bool'', ''must'', ''prefix'', ''_id''] = Inr (JStr p)"
  by (simp add: search_body_def setitem_def)

lemma search_body_empty: "search_body project (Some []) = search_body project None"
  by (simp add: search_body_def)

lemma load_world: "snd (load ext project id_prefix w) = snd (search ext project id_prefix w)"
  by (auto simp: load_def split: prod.splits sum.splits)

lemma query_world: "snd (query ext project w) = snd (search ext project None w)"
  by (auto simp: query_def load_def split: prod.splits sum.splits option.splits)

lemma load_benchmarks_world: "snd (load_benchmarks ext project w) = snd (search ext project None w)"
  by (auto simp: load_benchmarks_def split: prod.splits sum.splits option.splits)

lemma save_world:
  "snd (save ext document document_id w) =
     w\<lparr>wire := wire w @ [Index (elasticsearch_index (store w)) (elasticsearch_doctype (store w))
                            document document_id]\<rparr>"
  by (simp add: save_def es_index_def perform_request_def split: prod.splits sum.splits es_raw.splits)

lemma create_index_result:
  "create_index ext w =
     ((case respond ext (wire w) (IndicesCreate (elasticsearch_index (store w)) mapping) of
         NoAnswer \<Rightarrow> Inl ConnectionError
       | Http status body \<Rightarrow>
           if (200 \<le> status \<and> status < 300) \<or> status = 400 then Inr ()
           else Inl (TransportError status body)),
      w\<lparr>wire := wire w @ [IndicesCreate (elasticsearch_index (store w)) mapping]\<rparr>)"
  by (auto simp: create_index_def es_indices_create_def perform_request_def split: es_raw.splits)

lemma first_components_map: "first_components items = map fst items"
  by (induction items rule: first_components.induct) simp_all

subsection \<open>Loading\<close>

lemma load_result_alt:
  "load_result ext r =
     and_then (response_hits r) (\<lambda>hs.
       and_then (group_hits ext hs []) (list_sort (datetime_key ext)))"
  by (simp add: load_result_def response_hits_def group_by_commit_and_time_def and_then_def
      split: sum.splits)

lemma load_success:
  assumes "load ext project id_prefix w = ((items, None), w')"
  shows "\<exists>r hs res. search ext project id_prefix w = (Inr r, w') \<and> response_hits r = Inr hs \<and>
           group_hits ext hs [] = Inr res \<and> list_sort (datetime_key ext) res = Inr items"
  using assms
  by (auto simp: load_def load_result_alt and_then_Inr split: prod.splits sum.splits)

lemma load_from_parts:
  assumes "search ext project id_prefix w = (Inr r, w')" and "response_hits r = Inr hs"
  shows "load ext project id_prefix w =
     (case and_then (group_hits ext hs []) (list_sort (datetime_key ext)) of
        Inl e \<Rightarrow> (([], Some e), w')
      | Inr result \<Rightarrow> ((result, None), w'))"
  using assms by (simp add: load_def load_result_alt and_then_def)

lemma grouped_items:
  assumes "grouped ext hs res" and "mset items = mset res"
  shows "distinct (map fst items)" and "length items = card (hit_key ext ` set hs)"
    and "\<forall>(k, run)\<in>set items. run_of ext k hs run"
proof -
  from assms(2) have m: "mset (map fst items) = mset (map fst res)" by simp
  from assms(1) have d: "distinct (map fst res)" by (simp add: grouped_def)
  with m show di: "distinct (map fst items)" using mset_eq_imp_distinct_iff by blast
  have "x \<in> hit_key ext ` set hs \<longleftrightarrow> x \<in> Inr ` fst ` set res" for x
  proof (cases x)
    case (Inl e)
    from assms(1) have "\<forall>h\<in>set hs. hit_key ext h \<noteq> Inl e" by (auto simp: grouped_def)
    then show ?thesis unfolding Inl by auto
  next
    case (Inr k)
    from assms(1) have "k \<in> fst ` set res \<longleftrightarrow> (\<exists>h\<in>set hs. hit_key ext h = Inr k)"
      by (simp add: grouped_def)
    then show ?thesis unfolding Inr by (force simp: image_iff)
  qed
  then have keys: "hit_key ext ` set hs = Inr ` fst ` set res" by blast
  have "card (hit_key ext ` set hs) = card (fst ` set res)"
    unfolding keys by (rule card_image) simp
  also have "\<dots> = length (map fst res)" using distinct_card [OF d] by simp
  also have "\<dots> = length items" using mset_eq_length [OF assms(2)] by simp
  finally show "length items = card (hit_key ext ` set hs)" by simp
  from assms(2) have s: "set items = set res" by (rule mset_eq_setD)
  show "\<forall>(k, run)\<in>set items. run_of ext k hs run"
    using assms(1) d unfolding s grouped_def by auto
qed

lemma datetime_key_run_of:
  assumes "run_of ext k hs run"
  shows "\<exists>h src c. h \<in> set hs \<and> getitem h ''_source'' = Inr src \<and> getitem src ''datetime'' = Inr c \<and>
           datetime_key ext (k, run) =
             (case c of JStr s \<Rightarrow> (case strptime ext s of None \<Rightarrow> Inl ValueError | Some t \<Rightarrow> Inr t)
              | _ \<Rightarrow> Inl TypeError)"
proof -
  from run_of_fields [OF assms] obtain h src where
    h: "find (\<lambda>h. hit_key ext h = Inr k) hs = Some h" and src: "getitem h ''_source'' = Inr src"
    and f: "\<forall>f\<in>set run_keys. getitem run f = getitem src f"
    and d: "\<exists>d. run = JDict d \<and> map fst d = run_keys @ [''benchmarks'']"
    by blast
  from h have hs: "h \<in> set hs" by (auto simp: find_Some_iff)
  from f have eq: "getitem run ''datetime'' = getitem src ''datetime''" by (simp add: run_keys_def)
  from d obtain dd where dd: "run = JDict dd" "map fst dd = run_keys @ [''benchmarks'']" by blast
  then have "''datetime'' \<in> fst ` set dd" by (simp add: run_keys_def flip: set_map)
  then obtain c where rc: "getitem run ''datetime'' = Inr c"
    unfolding dd by (cases "map_of dd ''datetime''") (auto simp: map_of_eq_None_iff)
  with eq have sc: "getitem src ''datetime'' = Inr c" by simp
  have "datetime_key ext (k, run) =
      (case c of JStr s \<Rightarrow> (case strptime ext s of None \<Rightarrow> Inl ValueError | Some t \<Rightarrow> Inr t)
       | _ \<Rightarrow> Inl TypeError)"
    by (simp add: datetime_key_def and_then_def rc)
  with hs src sc show ?thesis by blast
qed

lemma load_total:
  assumes "search ext project id_prefix w = (Inr r, w')" and "response_hits r = Inr hs"
    and wf: "list_all (well_formed ext) hs"
  shows "\<exists>items. load ext project id_prefix w = ((items, None), w')"
proof -
  from group_hits_total [OF wf] obtain res where res: "group_hits ext hs [] = Inr res" by blast
  have g: "grouped ext hs res" by (rule group_hits_grouped [OF res])
  have "\<not> isl (datetime_key ext x)" if "x \<in> set res" for x
  proof -
    obtain k run where x: "x = (k, run)" by (cases x)
    with that g have "run_of ext k hs run" by (auto simp: grouped_def)
    from datetime_key_run_of [OF this] obtain h src c where
      h: "h \<in> set hs" "getitem h ''_source'' = Inr src" "getitem src ''datetime'' = Inr c"
      and k: "datetime_key ext (k, run) =
             (case c of JStr s \<Rightarrow> (case strptime ext s of None \<Rightarrow> Inl ValueError | Some t \<Rightarrow> Inr t)
              | _ \<Rightarrow> Inl TypeError)"
      by blast
    from wf h(1) have "well_formed ext h" by (simp add: list_all_iff)
    from well_formed_parts [OF this] h obtain s t where "c = JStr s" "strptime ext s = Some t"
      by auto
    with k show ?thesis by (simp add: x)
  qed
  then obtain ks where "all_keys (datetime_key ext) res = Inr ks"
    using all_keys_total [of res "datetime_key ext"] by blast
  then have "\<exists>items. list_sort (datetime_key ext) res = Inr items"
    by (simp add: list_sort_def and_then_def)
  then show ?thesis
    by (auto simp: load_from_parts [OF assms(1,2)] res and_then_def)
qed

lemma load_items:
  assumes "search ext project id_prefix w = (Inr r, w')" and "response_hits r = Inr hs"
    and "load ext project id_prefix w = ((items, None), w'')"
  shows "\<exists>res. grouped ext hs res \<and> list_sort (datetime_key ext) res = Inr items"
proof -
  from load_success [OF assms(3)] assms(1,2) obtain res where
    "group_hits ext hs [] = Inr res" "list_sort (datetime_key ext) res = Inr items"
    by auto
  then show ?thesis by (auto intro: group_hits_grouped)
qed

lemma load_empty_prefix: "load ext project (Some []) w = load ext project None w"
  by (simp add: load_def search_def search_body_empty)

lemma load_benchmarks_from_parts:
  assumes "search ext project None w = (Inr r, w')" and "response_hits r = Inr hs"
  shows "load_benchmarks ext project w = (yield_benchmarks hs, w')"
  using assms by (simp add: load_benchmarks_def response_hits_def)

lemma has_benchmark_fields_parts:
  assumes "has_benchmark_fields h"
  shows "\<exists>src b. getitem h ''_source'' = Inr src \<and> benchmark_from_es_record src = Inr b \<and>
           map fst b = benchmark_keys \<and> (\<forall>k\<in>set benchmark_keys. getitem (JDict b) k = getitem src k)"
proof -
  from assms obtain src where src: "getitem h ''_source'' = Inr src"
    and fields: "list_all (\<lambda>k. \<not> isl (getitem src k)) benchmark_keys"
    by (auto simp: has_benchmark_fields_def split: sum.splits)
  from fields have "\<exists>b. benchmark_from_es_record src = Inr b"
    unfolding benchmark_from_es_record_def by (intro copy_keys_total) (simp add: list_all_iff)
  then obtain b where b: "benchmark_from_es_record src = Inr b" by blast
  from benchmark_Inr [OF b] have "map fst b = benchmark_keys"
    and "\<forall>k\<in>set benchmark_keys. getitem (JDict b) k = getitem src k"
    by (auto simp: benchmark_keys_def)
  with src b show ?thesis by blast
qed

lemma yield_benchmarks_all:
  "list_all has_benchmark_fields hs \<Longrightarrow>
   \<exists>ys. yield_benchmarks hs = (ys, None) \<and>
     list_all2 (\<lambda>h y. \<exists>src d. getitem h ''_source'' = Inr src \<and> y = JDict d \<and>
                  map fst d = benchmark_keys \<and>
                  (\<forall>k\<in>set benchmark_keys. getitem y k = getitem src k)) hs ys"
proof (induction hs)
  case Nil
  then show ?case by simp
next
  case (Cons h hs)
  from Cons.prems have "has_benchmark_fields h" by simp
  from has_benchmark_fields_parts [OF this] obtain src b where
    p: "getitem h ''_source'' = Inr src" "benchmark_from_es_record src = Inr b"
       "map fst b = benchmark_keys" "\<forall>k\<in>set benchmark_keys. getitem (JDict b) k = getitem src k"
    by blast
  from Cons obtain ys where ys: "yield_benchmarks hs = (ys, None)"
    and rel: "list_all2 (\<lambda>h y. \<exists>src d. getitem h ''_source'' = Inr src \<and> y = JDict d \<and>
                  map fst d = benchmark_keys \<and>
                  (\<forall>k\<in>set benchmark_keys. getitem y k = getitem src k)) hs ys"
    by auto
  have "yield_benchmarks (h # hs) = (JDict b # ys, None)"
    by (simp add: p(1,2) ys and_then_def)
  with p rel show ?case by auto
qed

subsection \<open>The adapter's keys and records are those of the specification\<close>

lemma saved_document_key:
  assumes "saved_document ext h"
  shows "\<exists>k. commit_time_key h = Some k \<and> hit_key ext h = Inr k"
proof -
  from assms have wf: "well_formed ext h"
    and cid: "(case getpath h [''_source'', ''commit_info'', ''id''] of Inr (JStr c) \<Rightarrow> True | _ \<Rightarrow> False)"
    by (simp_all add: saved_document_def)
  from well_formed_parts [OF wf] obtain src s where
    src: "getitem h ''_source'' = Inr src" and dt: "getitem src ''datetime'' = Inr (JStr s)"
    by blast
  from cid src obtain ci c where ci: "getitem src ''commit_info'' = Inr ci"
    and c: "getitem ci ''id'' = Inr (JStr c)"
    by (auto split: sum.splits json.splits)
  have "commit_time_key h = Some (c @ ''_'' @ s)"
    by (simp add: commit_time_key_def src dt ci c)
  moreover have "hit_key ext h = Inr (c @ ''_'' @ s)"
    by (simp add: hit_key_def commit_and_time_def and_then_def src dt ci c)
  ultimately show ?thesis by blast
qed

lemma saved_document_benchmark:
  assumes "saved_document ext h"
  shows "\<exists>b. benchmark_sub_record h = Some (JDict b) \<and> hit_benchmark h = Inr b"
proof -
  from assms have wf: "well_formed ext h" by (simp add: saved_document_def)
  from well_formed_parts [OF wf] obtain src b where
    src: "getitem h ''_source'' = Inr src" and b: "benchmark_from_es_record src = Inr b"
    by blast
  from benchmark_Inr [OF b] have "benchmark_sub_record h = Some (JDict b)"
    by (auto simp: benchmark_sub_record_def src)
  moreover have "hit_benchmark h = Inr b" by (simp add: hit_benchmark_def and_then_def src b)
  ultimately show ?thesis by blast
qed

lemma datetime_key_parsed:
  "datetime_key ext x = Inr t \<Longrightarrow> parsed_datetime ext x t"
  by (auto simp: datetime_key_def parsed_datetime_def and_then_def
      split: sum.splits json.splits option.splits)

lemma grouped_key_set:
  assumes "grouped ext hs res"
  shows "Inr ` fst ` set res = hit_key ext ` set hs"
proof -
  have "x \<in> hit_key ext ` set hs \<longleftrightarrow> x \<in> Inr ` fst ` set res" for x
  proof (cases x)
    case (Inl e)
    from assms have "\<forall>h\<in>set hs. hit_key ext h \<noteq> Inl e" by (auto simp: grouped_def)
    then show ?thesis unfolding Inl by auto
  next
    case (Inr k)
    from assms have "k \<in> fst ` set res \<longleftrightarrow> (\<exists>h\<in>set hs. hit_key ext h = Inr k)"
      by (simp add: grouped_def)
    then show ?thesis unfolding Inr by (force simp: image_iff)
  qed
  then show ?thesis by blast
qed

lemma saved_keys_image:
  assumes "list_all (saved_document ext) hs"
  shows "commit_time_key ` set hs = (\<lambda>x. case x of Inl e \<Rightarrow> None | Inr k \<Rightarrow> Some k) ` hit_key ext ` set hs"
    and "inj_on (\<lambda>x. case x of Inl e \<Rightarrow> None | Inr k \<Rightarrow> Some k) (hit_key ext ` set hs)"
    and "filter (\<lambda>h. hit_key ext h = Inr k) hs = filter (\<lambda>h. commit_time_key h = Some k) hs"
proof -
  have key: "\<exists>k. commit_time_key h = Some k \<and> hit_key ext h = Inr k" if "h \<in> set hs" for h
    using assms that by (auto simp: list_all_iff intro: saved_document_key)
  show "commit_time_key ` set hs = (\<lambda>x. case x of Inl e \<Rightarrow> None | Inr k \<Rightarrow> Some k) ` hit_key ext ` set hs"
    unfolding image_image by (rule image_cong) (use key in force)+
  show "inj_on (\<lambda>x. case x of Inl e \<Rightarrow> None | Inr k \<Rightarrow> Some k) (hit_key ext ` set hs)"
  proof (rule inj_onI)
    fix x y
    assume x: "x \<in> hit_key ext ` set hs" and y: "y \<in> hit_key ext ` set hs"
      and eq: "(case x of Inl e \<Rightarrow> None | Inr k \<Rightarrow> Some k) = (case y of Inl e \<Rightarrow> None | Inr k \<Rightarrow> Some k)"
    from x key obtain kx where "x = Inr kx" by force
    moreover from y key obtain ky where "y = Inr ky" by force
    ultimately show "x = y" using eq by simp
  qed
  show "filter (\<lambda>h. hit_key ext h = Inr k) hs = filter (\<lambda>h. commit_time_key h = Some k) hs"
  proof (rule filter_cong)
    fix h assume "h \<in> set hs"
    from key [OF this] show "(hit_key ext h = Inr k) = (commit_time_key h = Some k)" by auto
  qed simp
qed

subsection \<open>The example, evaluated\<close>

lemma strp1: "example_strptime ''2020-01-01T00:00:00.000000'' = Some 20200101000000000000"
  by (simp add: example_strptime_def digit_value_def)

lemma strp2: "example_strptime ''2020-01-02T00:00:00.000000'' = Some 20200102000000000000"
  by (simp add: example_strptime_def digit_value_def)

lemma ex_search:
  "search (example_ext example_hits) ''demo'' None example_world =
     (Inr (JDict [(''hits'', JDict [(''hits'', JList example_hits)])]),
      example_world\<lparr>wire := [Search ''benchmark'' ''benchmark'' (search_body ''demo'' None)]\<rparr>)"
  by (simp add: search_def es_search_def perform_request_def example_ext_def example_respond_def
      example_world_def example_store_def search_body_def)

lemma ex_hits: "response_hits (JDict [(''hits'', JDict [(''hits'', JList hs)])]) = Inr hs"
  by (simp add: response_hits_def and_then_def)

lemma ex_hit_key:
  "hit_key (example_ext docs) (example_hit i (example_source n dt node ver)) = Inr (''abc123_'' @ dt)"
  by (simp add: hit_key_def commit_and_time_def example_hit_def example_source_def and_then_def
      example_ext_def)

lemma ex_group_hit:
  "group_hit (example_ext docs) (example_hit i (example_source n dt node ver)) res =
     (case map_of res (''abc123_'' @ dt) of
        Some run \<Rightarrow>
          and_then (append_benchmark run (example_benchmark n)) (\<lambda>run'.
            Inr (setitem res (''abc123_'' @ dt) run'))
      | None \<Rightarrow> Inr (setitem res (''abc123_'' @ dt) (example_run dt node ver [example_benchmark n])))"
  by (simp add: group_hit_def commit_and_time_def example_hit_def example_source_def and_then_def
      example_ext_def benchmark_from_es_record_def run_info_from_es_record_def benchmark_keys_def
      run_keys_def setitem_def example_benchmark_def example_run_def split: option.splits)

lemma ex_append:
  "append_benchmark (example_run dt node ver bs) b = Inr (example_run dt node ver (bs @ [b]))"
  by (simp add: example_run_def setitem_def)

lemma ex_datetime_key:
  "datetime_key (example_ext docs) (k, example_run dt node ver bs) =
     (case example_strptime dt of None \<Rightarrow> Inl ValueError | Some t \<Rightarrow> Inr t)"
  by (simp add: datetime_key_def example_run_def and_then_def example_ext_def)

lemma ex_groups:
  "group_hits (example_ext docs) example_hits [] = Inr
     [(''abc123_2020-01-02T00:00:00.000000'',
         example_run ''2020-01-02T00:00:00.000000'' ''n1'' ''3.1'' [example_benchmark ''test_a'']),
      (''abc123_2020-01-01T00:00:00.000000'',
         example_run ''2020-01-01T00:00:00.000000'' ''n1'' ''3.1''
           [example_benchmark ''test_b'', example_benchmark ''test_c''])]"
  by (simp add: example_hits_def ex_group_hit ex_append setitem_def and_then_def)

lemma ex_load:
  "load (example_ext example_hits) ''demo'' None example_world =
     (([(''abc123_2020-01-01T00:00:00.000000'',
           example_run ''2020-01-01T00:00:00.000000'' ''n1'' ''3.1''
             [example_benchmark ''test_b'', example_benchmark ''test_c'']),
        (''abc123_2020-01-02T00:00:00.000000'',
           example_run ''2020-01-02T00:00:00.000000'' ''n1'' ''3.1'' [example_benchmark ''test_a''])],
       None),
      example_world\<lparr>wire := [Search ''benchmark'' ''benchmark'' (search_body ''demo'' None)]\<rparr>)"
  by (simp add: load_from_parts [OF ex_search ex_hits] ex_groups and_then_def list_sort_def
      ex_datetime_key strp1 strp2)

lemma ex_find_first:
  "find (\<lambda>h. hit_key (example_ext example_hits) h = Inr ''abc123_2020-01-01T00:00:00.000000'') example_hits =
     Some (example_hit ''abc123_r1_b'' (example_source ''test_b'' ''2020-01-01T00:00:00.000000'' ''n1'' ''3.1''))"
  by (simp add: example_hits_def ex_hit_key)

lemma ex_bad_search:
  "search (example_ext example_bad_hits) ''demo'' None example_world =
     (Inr (JDict [(''hits'', JDict [(''hits'', JList example_bad_hits)])]),
      example_world\<lparr>wire := [Search ''benchmark'' ''benchmark'' (search_body ''demo'' None)]\<rparr>)"
  by (simp add: search_def es_search_def perform_request_def example_ext_def example_respond_def
      example_world_def example_store_def search_body_def)

lemma ex_bad_groups:
  "group_by_commit_and_time (example_ext example_bad_hits) (JList example_bad_hits) = Inr
     [(''abc123_2020-01-02T00:00:00.000000'',
         example_run ''2020-01-02T00:00:00.000000'' ''n1'' ''3.1'' [example_benchmark ''test_a'']),
      (''abc123_2020-01-01 00:00'',
         example_run ''2020-01-01 00:00'' ''n1'' ''3.1'' [example_benchmark ''test_z''])]"
  by (simp add: group_by_commit_and_time_def example_bad_hits_def ex_group_hit ex_append setitem_def
      and_then_def)

lemma ex_filter: "filter (has_id_prefix ''abc123_r1'') example_hits = example_hits_r1"
  by (simp add: example_hits_def example_hits_r1_def has_id_prefix_def example_hit_def)

lemma ex_prefix_respond:
  "respond (example_ext example_hits) []
     (Search ''benchmark'' ''benchmark'' (search_body ''demo'' (Some ''abc123_r1''))) =
   Http 200 (JDict [(''hits'', JDict [(''hits'', JList example_hits_r1)])])"
  by (simp add: example_ext_def example_respond_def search_body_prefix ex_filter del: getpath.simps)

lemma ex_prefix_search:
  "search (example_ext example_hits) ''demo'' (Some ''abc123_r1'') example_world =
     (Inr (JDict [(''hits'', JDict [(''hits'', JList example_hits_r1)])]),
      example_world\<lparr>wire := [Search ''benchmark'' ''benchmark'' (search_body ''demo'' (Some ''abc123_r1''))]\<rparr>)"
  using ex_prefix_respond
  by (simp add: search_result example_world_def example_store_def)

lemma ex_prefix_groups:
  "group_hits (example_ext docs) example_hits_r1 [] = Inr
     [(''abc123_2020-01-01T00:00:00.000000'',
         example_run ''2020-01-01T00:00:00.000000'' ''n1'' ''3.1''
           [example_benchmark ''test_b'', example_benchmark ''test_c''])]"
  by (simp add: example_hits_r1_def ex_group_hit ex_append setitem_def and_then_def)

lemma ex_prefix_load:
  "load (example_ext example_hits) ''demo'' (Some ''abc123_r1'') example_world =
     (([(''abc123_2020-01-01T00:00:00.000000'',
           example_run ''2020-01-01T00:00:00.000000'' ''n1'' ''3.1''
             [example_benchmark ''test_b'', example_benchmark ''test_c''])],
       None),
      example_world\<lparr>wire := [Search ''benchmark'' ''benchmark'' (search_body ''demo'' (Some ''abc123_r1''))]\<rparr>)"
  by (simp add: load_from_parts [OF ex_prefix_search ex_hits] ex_prefix_groups and_then_def list_sort_def
      ex_datetime_key strp1)

lemma ex_fields: "list_all has_benchmark_fields example_hits"
  by (simp add: has_benchmark_fields_def example_hits_def example_hit_def example_source_def
      benchmark_keys_def)

lemma ex_yield:
  "yield_benchmarks example_hits =
     ([example_benchmark ''test_a'', example_benchmark ''test_b'', example_benchmark ''test_c''], None)"
  by (simp add: example_hits_def example_hit_def example_source_def and_then_def
      benchmark_from_es_record_def benchmark_keys_def setitem_def example_benchmark_def)

lemma ex2_search:
  "search (example_ext two_commit_hits) ''demo'' None example_world =
     (Inr (JDict [(''hits'', JDict [(''hits'', JList two_commit_hits)])]),
      example_world\<lparr>wire := [Search ''benchmark'' ''benchmark'' (search_body ''demo'' None)]\<rparr>)"
  by (simp add: search_def es_search_def perform_request_def example_ext_def example_respond_def
      example_world_def example_store_def search_body_def)

lemma ex2_saved: "list_all (saved_document (example_ext two_commit_hits)) two_commit_hits"
  by (simp add: saved_document_def well_formed_def two_commit_hits_def example_hit_def commit_source_def
      benchmark_keys_def run_keys_def and_then_def example_ext_def strp1 strp2)

lemma ex2_key:
  "commit_time_key (example_hit i (commit_source c n dt)) = Some (c @ ''_'' @ dt)"
  by (simp add: commit_time_key_def example_hit_def commit_source_def)

lemma ex2_sub:
  "benchmark_sub_record (example_hit i (commit_source c n dt)) = Some (example_benchmark n)"
  by (simp add: benchmark_sub_record_def example_hit_def commit_source_def example_benchmark_def)

lemma ex2_group_hit:
  "group_hit (example_ext docs) (example_hit i (commit_source c n dt)) res =
     (case map_of res (c @ ''_'' @ dt) of
        Some run \<Rightarrow>
          and_then (append_benchmark run (example_benchmark n)) (\<lambda>run'.
            Inr (setitem res (c @ ''_'' @ dt) run'))
      | None \<Rightarrow> Inr (setitem res (c @ ''_'' @ dt) (commit_run c dt [example_benchmark n])))"
  by (simp add: group_hit_def commit_and_time_def example_hit_def commit_source_def and_then_def
      example_ext_def benchmark_from_es_record_def run_info_from_es_record_def benchmark_keys_def
      run_keys_def setitem_def example_benchmark_def commit_run_def split: option.splits)

lemma ex2_append:
  "append_benchmark (commit_run c dt bs) b = Inr (commit_run c dt (bs @ [b]))"
  by (simp add: commit_run_def setitem_def)

lemma ex2_datetime_key:
  "datetime_key (example_ext docs) (k, commit_run c dt bs) =
     (case example_strptime dt of None \<Rightarrow> Inl ValueError | Some t \<Rightarrow> Inr t)"
  by (simp add: datetime_key_def commit_run_def and_then_def example_ext_def)

lemma ex2_groups:
  "group_hits (example_ext docs) two_commit_hits [] = Inr
     [(''aaa_2020-01-02T00:00:00.000000'',
         commit_run ''aaa'' ''2020-01-02T00:00:00.000000'' [example_benchmark ''test_a'']),
      (''aaa_2020-01-01T00:00:00.000000'',
         commit_run ''aaa'' ''2020-01-01T00:00:00.000000''
           [example_benchmark ''test_b'', example_benchmark ''test_d'']),
      (''bbb_2020-01-01T00:00:00.000000'',
         commit_run ''bbb'' ''2020-01-01T00:00:00.000000'' [example_benchmark ''test_c''])]"
  by (simp add: two_commit_hits_def ex2_group_hit ex2_append setitem_def and_then_def)

lemma ex2_load:
  "load (example_ext two_commit_hits) ''demo'' None example_world =
     (([(''aaa_2020-01-01T00:00:00.000000'',
           commit_run ''aaa'' ''2020-01-01T00:00:00.000000''
             [example_benchmark ''test_b'', example_benchmark ''test_d'']),
        (''bbb_2020-01-01T00:00:00.000000'',
           commit_run ''bbb'' ''2020-01-01T00:00:00.000000'' [example_benchmark ''test_c'']),
        (''aaa_2020-01-02T00:00:00.000000'',
           commit_run ''aaa'' ''2020-01-02T00:00:00.000000'' [example_benchmark ''test_a''])],
       None),
      example_world\<lparr>wire := [Search ''benchmark'' ''benchmark'' (search_body ''demo'' None)]\<rparr>)"
  by (simp add: load_from_parts [OF ex2_search ex_hits] ex2_groups and_then_def list_sort_def
      ex2_datetime_key strp1 strp2)

section \<open>The claims\<close>

subsection \<open>C1: load groups the hits by key and sorts the runs by time\<close>

text \<open>
  Claim C1. Let a search for a project succeed with the hits \<open>hs\<close>, each a saved benchmark
  document, and let the hits span \<open>K\<close> distinct keys \<^verbatim>\<open>commit_info.id + "_" + datetime\<close>. Then
  \<^verbatim>\<open>load\<close> runs to its end without an exception and yields exactly \<open>K\<close> pairs, whose first
  components are these keys, none twice. The \<^verbatim>\<open>benchmarks\<close> list of the record yielded under a
  key holds exactly the benchmark sub-records of the hits with that key, in the order of the
  hits: hits that share a key are merged into one run. The timestamps of the yielded records,
  parsed by \<^verbatim>\<open>strptime\<close>, are in non-decreasing order. Keys, sub-records and parsed
  timestamps are those of the specification (\<open>commit_time_key\<close>, \<open>benchmark_sub_record\<close>,
  \<open>parsed_datetime\<close>), not the adapter's own functions. In the example two commits share a
  timestamp and stay two runs.
\<close>

theorem load_groups_by_key_sorted:
  assumes "search ext project id_prefix w = (Inr r, w')" and "response_hits r = Inr hs"
    and "list_all (saved_document ext) hs"
  shows "\<exists>items. load ext project id_prefix w = ((items, None), w') \<and>
           length items = card (commit_time_key ` set hs) \<and>
           distinct (map fst items) \<and>
           Some ` fst ` set items = commit_time_key ` set hs \<and>
           (\<forall>(k, run)\<in>set items. \<exists>bs. getitem run ''benchmarks'' = Inr (JList bs) \<and>
              list_all2 (\<lambda>h b. benchmark_sub_record h = Some b)
                (filter (\<lambda>h. commit_time_key h = Some k) hs) bs) \<and>
           (\<exists>ts. list_all2 (parsed_datetime ext) items ts \<and> sorted ts)"
proof -
  let ?f = "\<lambda>x. case x of Inl e \<Rightarrow> None | Inr k \<Rightarrow> Some k"
  from assms(3) have wf: "list_all (well_formed ext) hs"
    by (simp add: list_all_iff saved_document_def)
  from load_total [OF assms(1,2) wf] obtain items where
    l: "load ext project id_prefix w = ((items, None), w')" by blast
  from load_items [OF assms(1,2) l] obtain res where g: "grouped ext hs res"
    and s: "list_sort (datetime_key ext) res = Inr items" by blast
  note m = list_sort_Inr(1) [OF s]
  note keys = saved_keys_image [OF assms(3)]
  have 1: "length items = card (commit_time_key ` set hs)"
    using grouped_items(2) [OF g m] by (simp add: keys(1) card_image [OF keys(2)])
  have 2: "distinct (map fst items)" by (rule grouped_items(1) [OF g m])
  have "set items = set res" using m by (rule mset_eq_setD)
  then have e: "Inr ` fst ` set items = hit_key ext ` set hs" using grouped_key_set [OF g] by simp
  have "Some ` fst ` set items = ?f ` ((Inr :: string \<Rightarrow> py_error + string) ` fst ` set items)"
    by (simp add: image_image)
  also have "\<dots> = ?f ` (hit_key ext ` set hs)" by (simp only: e)
  also have "\<dots> = commit_time_key ` set hs" by (simp only: keys(1))
  finally have 3: "Some ` fst ` set items = commit_time_key ` set hs" .
  have 4: "\<forall>(k, run)\<in>set items. \<exists>bs. getitem run ''benchmarks'' = Inr (JList bs) \<and>
              list_all2 (\<lambda>h b. benchmark_sub_record h = Some b)
                (filter (\<lambda>h. commit_time_key h = Some k) hs) bs"
  proof (intro ballI, clarify)
    fix k run assume "(k, run) \<in> set items"
    with grouped_items(3) [OF g m] have "run_of ext k hs run" by auto
    from run_of_fields [OF this]
    have b: "getitem run ''benchmarks'' = Inr (benchmarks_of ext k hs)" by blast
    have "list_all2 (\<lambda>h b. benchmark_sub_record h = Some b)
        (filter (\<lambda>h. commit_time_key h = Some k) hs)
        (map (\<lambda>h. JDict (projr (hit_benchmark h))) (filter (\<lambda>h. commit_time_key h = Some k) hs))"
      unfolding list_all2_map2
    proof (rule list_all2_same [THEN iffD2], intro ballI)
      fix h assume "h \<in> set (filter (\<lambda>h. commit_time_key h = Some k) hs)"
      then have "saved_document ext h" using assms(3) by (simp add: list_all_iff)
      from saved_document_benchmark [OF this]
      show "benchmark_sub_record h = Some (JDict (projr (hit_benchmark h)))" by auto
    qed
    with b show "\<exists>bs. getitem run ''benchmarks'' = Inr (JList bs) \<and>
              list_all2 (\<lambda>h b. benchmark_sub_record h = Some b)
                (filter (\<lambda>h. commit_time_key h = Some k) hs) bs"
      by (auto simp: benchmarks_of_def keys(3))
  qed
  from list_sort_Inr(2) [OF s] obtain ts where ts: "all_keys (datetime_key ext) items = Inr ts"
    and sorted: "sorted ts" by blast
  from ts have "list_all2 (\<lambda>x t. datetime_key ext x = Inr t) items ts" by (simp add: all_keys_Inr)
  then have "list_all2 (parsed_datetime ext) items ts"
    by (rule list_all2_mono) (rule datetime_key_parsed)
  with sorted have 5: "\<exists>ts. list_all2 (parsed_datetime ext) items ts \<and> sorted ts" by blast
  from l 1 2 3 4 5 show ?thesis by blast
qed

theorem load_groups_by_key_sorted_witness:
  "search (example_ext two_commit_hits) ''demo'' None example_world =
     (Inr (JDict [(''hits'', JDict [(''hits'', JList two_commit_hits)])]),
      example_world\<lparr>wire := [Search ''benchmark'' ''benchmark'' (search_body ''demo'' None)]\<rparr>)
   \<and> response_hits (JDict [(''hits'', JDict [(''hits'', JList two_commit_hits)])]) = Inr two_commit_hits
   \<and> list_all (saved_document (example_ext two_commit_hits)) two_commit_hits
   \<and> map commit_time_key two_commit_hits =
       [Some ''aaa_2020-01-02T00:00:00.000000'', Some ''aaa_2020-01-01T00:00:00.000000'',
        Some ''bbb_2020-01-01T00:00:00.000000'', Some ''aaa_2020-01-01T00:00:00.000000'']
   \<and> map benchmark_sub_record two_commit_hits =
       [Some (example_benchmark ''test_a''), Some (example_benchmark ''test_b''),
        Some (example_benchmark ''test_c''), Some (example_benchmark ''test_d'')]
   \<and> card (commit_time_key ` set two_commit_hits) = 3
   \<and> load (example_ext two_commit_hits) ''demo'' None example_world =
     (([(''aaa_2020-01-01T00:00:00.000000'',
           commit_run ''aaa'' ''2020-01-01T00:00:00.000000''
             [example_benchmark ''test_b'', example_benchmark ''test_d'']),
        (''bbb_2020-01-01T00:00:00.000000'',
           commit_run ''bbb'' ''2020-01-01T00:00:00.000000'' [example_benchmark ''test_c'']),
        (''aaa_2020-01-02T00:00:00.000000'',
           commit_run ''aaa'' ''2020-01-02T00:00:00.000000'' [example_benchmark ''test_a''])],
       None),
      example_world\<lparr>wire := [Search ''benchmark'' ''benchmark'' (search_body ''demo'' None)]\<rparr>)
   \<and> (\<exists>items. load (example_ext two_commit_hits) ''demo'' None example_world =
          ((items, None),
           example_world\<lparr>wire := [Search ''benchmark'' ''benchmark'' (search_body ''demo'' None)]\<rparr>)
        \<and> length items = 3 \<and> distinct (map fst items)
        \<and> (\<exists>ts. list_all2 (parsed_datetime (example_ext two_commit_hits)) items ts \<and> sorted ts))"
proof -
  have k: "map commit_time_key two_commit_hits =
       [Some ''aaa_2020-01-02T00:00:00.000000'', Some ''aaa_2020-01-01T00:00:00.000000'',
        Some ''bbb_2020-01-01T00:00:00.000000'', Some ''aaa_2020-01-01T00:00:00.000000'']"
    by (simp add: two_commit_hits_def ex2_key)
  have b: "map benchmark_sub_record two_commit_hits =
       [Some (example_benchmark ''test_a''), Some (example_benchmark ''test_b''),
        Some (example_benchmark ''test_c''), Some (example_benchmark ''test_d'')]"
    by (simp add: two_commit_hits_def ex2_sub)
  have "commit_time_key ` set two_commit_hits =
      {Some ''aaa_2020-01-02T00:00:00.000000'', Some ''aaa_2020-01-01T00:00:00.000000'',
       Some ''bbb_2020-01-01T00:00:00.000000''}"
    by (simp add: two_commit_hits_def ex2_key insert_commute)
  then have c: "card (commit_time_key ` set two_commit_hits) = 3" by simp
  let ?w = "example_world\<lparr>wire := [Search ''benchmark'' ''benchmark'' (search_body ''demo'' None)]\<rparr>"
  from load_groups_by_key_sorted [OF ex2_search ex_hits ex2_saved]
  obtain items where l: "load (example_ext two_commit_hits) ''demo'' None example_world = ((items, None), ?w)"
    and len: "length items = card (commit_time_key ` set two_commit_hits)"
    and d: "distinct (map fst items)"
    and s: "\<exists>ts. list_all2 (parsed_datetime (example_ext two_commit_hits)) items ts \<and> sorted ts"
    by - (erule exE, elim conjE, rule that, assumption+)
  from l len d s c
  have e: "\<exists>items. load (example_ext two_commit_hits) ''demo'' None example_world = ((items, None), ?w)
        \<and> length items = 3 \<and> distinct (map fst items)
        \<and> (\<exists>ts. list_all2 (parsed_datetime (example_ext two_commit_hits)) items ts \<and> sorted ts)"
    by (intro exI [of _ items]) simp
  show ?thesis
    by (intro conjI) (rule ex2_search ex_hits ex2_saved k b c ex2_load e)+
qed

subsection \<open>C2: query is load without the record bodies\<close>

text \<open>
  Claim C2. \<^verbatim>\<open>query(project)\<close> returns the first components of the pairs that
  \<^verbatim>\<open>load(project)\<close> yields without an id prefix, in the same order; it raises what
  \<^verbatim>\<open>load\<close> raises, and it leaves the store and the wire as \<^verbatim>\<open>load\<close> does.
\<close>

theorem query_is_keys_of_load:
  "query ext project w =
     (case load ext project None w of
        ((items, None), w') \<Rightarrow> (Inr (map fst items), w')
      | ((items, Some e), w') \<Rightarrow> (Inl e, w'))"
  by (simp add: query_def first_components_map split: prod.splits option.splits)

theorem query_is_keys_of_load_witness:
  "query (example_ext example_hits) ''demo'' example_world =
     (Inr [''abc123_2020-01-01T00:00:00.000000'', ''abc123_2020-01-02T00:00:00.000000''],
      example_world\<lparr>wire := [Search ''benchmark'' ''benchmark'' (search_body ''demo'' None)]\<rparr>)"
  using query_is_keys_of_load [of "example_ext example_hits" "''demo''" example_world]
  by (simp add: ex_load)

subsection \<open>C3: the shape of the search request\<close>

text \<open>
  Claim C3. Each of \<^verbatim>\<open>load\<close>, \<^verbatim>\<open>query\<close> and \<^verbatim>\<open>load_benchmarks\<close> sends exactly one
  request, a search on the configured index and doc-type (there is no second request, hence no
  pagination). Its body asks for 1000 hits, sorted by \<^verbatim>\<open>datetime\<close> in descending order, and
  filters by the term \<^verbatim>\<open>commit_info.project\<close> equal to the project; the \<^verbatim>\<open>bool\<close> query has a
  \<^verbatim>\<open>must\<close> clause, the prefix of \<^verbatim>\<open>_id\<close>, exactly when an id prefix that is not empty is
  given (\<^verbatim>\<open>query\<close> and \<^verbatim>\<open>load_benchmarks\<close> give none).
\<close>

theorem search_request_shape:
  "snd (load ext project id_prefix w) =
     w\<lparr>wire := wire w @ [Search (elasticsearch_index (store w)) (elasticsearch_doctype (store w))
                            (search_body project id_prefix)]\<rparr>
   \<and> snd (query ext project w) =
     w\<lparr>wire := wire w @ [Search (elasticsearch_index (store w)) (elasticsearch_doctype (store w))
                            (search_body project None)]\<rparr>
   \<and> snd (load_benchmarks ext project w) =
     w\<lparr>wire := wire w @ [Search (elasticsearch_index (store w)) (elasticsearch_doctype (store w))
                            (search_body project None)]\<rparr>
   \<and> getitem (search_body project id_prefix) ''size'' = Inr (JInt 1000)
   \<and> getitem (search_body project id_prefix) ''sort'' =
       Inr (JList [JDict [(''datetime'', JDict [(''order'', JStr ''desc'')])]])
   \<and> getpath (search_body project id_prefix) [''query'', ''bool''] =
       Inr (JDict ((''filter'', JDict [(''term'', JDict [(''commit_info.project'', JStr project)])]) #
              (case id_prefix of
                 None \<Rightarrow> []
               | Some p \<Rightarrow>
                   if p = [] then []
                   else [(''must'', JDict [(''prefix'', JDict [(''_id'', JStr p)])])])))"
  by (simp add: load_world query_world load_benchmarks_world search_wire)
     (simp add: search_body_def setitem_def split: option.splits)

theorem search_request_shape_witness:
  "wire (snd (load (example_ext example_hits) ''demo'' (Some ''abc123_r1'') example_world)) =
     [Search ''benchmark'' ''benchmark'' (search_body ''demo'' (Some ''abc123_r1''))]
   \<and> getitem (search_body ''demo'' (Some ''abc123_r1'')) ''size'' = Inr (JInt 1000)
   \<and> getpath (search_body ''demo'' (Some ''abc123_r1'')) [''query'', ''bool''] =
       Inr (JDict [(''filter'', JDict [(''term'', JDict [(''commit_info.project'', JStr ''demo'')])]),
                   (''must'', JDict [(''prefix'', JDict [(''_id'', JStr ''abc123_r1'')])])])
   \<and> getpath (search_body ''demo'' (Some [])) [''query'', ''bool''] =
       Inr (JDict [(''filter'', JDict [(''term'', JDict [(''commit_info.project'', JStr ''demo'')])])])"
  using search_request_shape [of "example_ext example_hits" "''demo''" "Some ''abc123_r1''" example_world]
    search_request_shape [of "example_ext example_hits" "''demo''" "Some []" example_world]
  by (simp add: example_world_def example_store_def)

subsection \<open>C4: the id prefix\<close>

text \<open>
  Claim C4. With an empty id prefix \<^verbatim>\<open>load\<close> behaves as with none. With a prefix \<open>p\<close> that is
  not empty: if the engine's answer to the request that \<^verbatim>\<open>load\<close> sent honours the prefix clause
  of that request, then every hit of the answer has an identifier that starts with \<open>p\<close>, and
  every yielded record is the run record built from these hits. What the engine does with the
  clause is the engine's part; that the clause is sent, for \<open>p\<close> and on \<^verbatim>\<open>_id\<close>, and that the
  records come from the answer and from nothing else, is the adapter's.
\<close>

theorem load_id_prefix:
  "load ext project (Some []) w = load ext project None w
   \<and> (p \<noteq> [] \<and> load ext project (Some p) w = ((items, None), w')
        \<and> last (wire w') = Search index doc_type body
        \<and> respond ext (wire w) (Search index doc_type body) = Http status r
        \<and> response_hits r = Inr hs \<and> honours_prefix body hs
      \<longrightarrow> list_all (has_id_prefix p) hs \<and> (\<forall>(k, run)\<in>set items. run_of ext k hs run))"
proof (intro conjI impI)
  show "load ext project (Some []) w = load ext project None w" by (rule load_empty_prefix)
next
  assume a: "p \<noteq> [] \<and> load ext project (Some p) w = ((items, None), w')
        \<and> last (wire w') = Search index doc_type body
        \<and> respond ext (wire w) (Search index doc_type body) = Http status r
        \<and> response_hits r = Inr hs \<and> honours_prefix body hs"
  then have p: "p \<noteq> []" and l: "load ext project (Some p) w = ((items, None), w')"
    and sent: "last (wire w') = Search index doc_type body"
    and ans: "respond ext (wire w) (Search index doc_type body) = Http status r"
    and hs: "response_hits r = Inr hs" and hon: "honours_prefix body hs"
    by simp_all
  from load_success [OF l] obtain r0 hs0 res where
    s: "search ext project (Some p) w = (Inr r0, w')" and hs0: "response_hits r0 = Inr hs0"
    and g: "group_hits ext hs0 [] = Inr res" and srt: "list_sort (datetime_key ext) res = Inr items"
    by blast
  from s [unfolded search_result] obtain status0 where
    ans0: "respond ext (wire w)
        (Search (elasticsearch_index (store w)) (elasticsearch_doctype (store w))
           (search_body project (Some p))) = Http status0 r0"
    and w': "w' = w\<lparr>wire := wire w @ [Search (elasticsearch_index (store w)) (elasticsearch_doctype (store w))
                            (search_body project (Some p))]\<rparr>"
    by blast
  from sent have call: "Search index doc_type body =
      Search (elasticsearch_index (store w)) (elasticsearch_doctype (store w)) (search_body project (Some p))"
    by (simp add: w')
  with ans ans0 have "r = r0" by simp
  with hs hs0 have same: "hs0 = hs" by simp
  from call have "body = search_body project (Some p)" by simp
  with hon show "list_all (has_id_prefix p) hs"
    by (simp add: honours_prefix_def search_body_prefix [OF p] del: getpath.simps)
  have "grouped ext hs res" using g same by (auto intro: group_hits_grouped)
  from grouped_items(3) [OF this list_sort_Inr(1) [OF srt]]
  show "\<forall>(k, run)\<in>set items. run_of ext k hs run" .
qed

theorem load_id_prefix_witness:
  "load (example_ext example_hits) ''demo'' (Some ''abc123_r1'') example_world =
     (([(''abc123_2020-01-01T00:00:00.000000'',
           example_run ''2020-01-01T00:00:00.000000'' ''n1'' ''3.1''
             [example_benchmark ''test_b'', example_benchmark ''test_c''])],
       None),
      example_world\<lparr>wire := [Search ''benchmark'' ''benchmark'' (search_body ''demo'' (Some ''abc123_r1''))]\<rparr>)
   \<and> respond (example_ext example_hits) (wire example_world)
        (Search ''benchmark'' ''benchmark'' (search_body ''demo'' (Some ''abc123_r1''))) =
       Http 200 (JDict [(''hits'', JDict [(''hits'', JList example_hits_r1)])])
   \<and> response_hits (JDict [(''hits'', JDict [(''hits'', JList example_hits_r1)])]) = Inr example_hits_r1
   \<and> honours_prefix (search_body ''demo'' (Some ''abc123_r1'')) example_hits_r1
   \<and> list_all (has_id_prefix ''abc123_r1'') example_hits_r1
   \<and> run_of (example_ext example_hits) ''abc123_2020-01-01T00:00:00.000000'' example_hits_r1
        (example_run ''2020-01-01T00:00:00.000000'' ''n1'' ''3.1''
             [example_benchmark ''test_b'', example_benchmark ''test_c''])
   \<and> load (example_ext example_hits) ''demo'' (Some []) example_world =
       load (example_ext example_hits) ''demo'' None example_world"
proof -
  let ?w = "example_world\<lparr>wire := [Search ''benchmark'' ''benchmark'' (search_body ''demo'' (Some ''abc123_r1''))]\<rparr>"
  have 1: "''abc123_r1'' \<noteq> []" by simp
  have 2: "last (wire ?w) = Search ''benchmark'' ''benchmark'' (search_body ''demo'' (Some ''abc123_r1''))"
    by simp
  have 3: "respond (example_ext example_hits) (wire example_world)
        (Search ''benchmark'' ''benchmark'' (search_body ''demo'' (Some ''abc123_r1''))) =
       Http 200 (JDict [(''hits'', JDict [(''hits'', JList example_hits_r1)])])"
    using ex_prefix_respond by (simp add: example_world_def)
  have 4: "honours_prefix (search_body ''demo'' (Some ''abc123_r1'')) example_hits_r1"
    by (simp add: honours_prefix_def search_body_prefix example_hits_r1_def has_id_prefix_def example_hit_def
        del: getpath.simps)
  from load_id_prefix [where ext = "example_ext example_hits" and project = "''demo''"
      and w = example_world and p = "''abc123_r1''" and w' = ?w
      and items = "[(''abc123_2020-01-01T00:00:00.000000'',
           example_run ''2020-01-01T00:00:00.000000'' ''n1'' ''3.1''
             [example_benchmark ''test_b'', example_benchmark ''test_c''])]"
      and index = "''benchmark''" and doc_type = "''benchmark''"
      and body = "search_body ''demo'' (Some ''abc123_r1'')" and status = 200
      and r = "JDict [(''hits'', JDict [(''hits'', JList example_hits_r1)])]" and hs = example_hits_r1]
    1 ex_prefix_load 2 3 ex_hits 4
  show ?thesis by simp
qed

subsection \<open>C5: load_benchmarks yields one record per hit\<close>

text \<open>
  Claim C5. Let a search for a project succeed with the hits \<open>hs\<close>, each with the seven benchmark
  fields in its source. Then \<^verbatim>\<open>load_benchmarks\<close> runs to its end and yields one record per hit,
  in the order of the hits; the record of a hit is a dict with exactly the keys \<^verbatim>\<open>group\<close>,
  \<^verbatim>\<open>stats\<close>, \<^verbatim>\<open>options\<close>, \<^verbatim>\<open>param\<close>, \<^verbatim>\<open>name\<close>, \<^verbatim>\<open>params\<close>, \<^verbatim>\<open>fullname\<close>, each
  with the value it has in the hit's source.
\<close>

theorem load_benchmarks_one_per_hit:
  assumes "search ext project None w = (Inr r, w')" and "response_hits r = Inr hs"
    and "list_all has_benchmark_fields hs"
  shows "\<exists>ys. load_benchmarks ext project w = ((ys, None), w') \<and>
           list_all2 (\<lambda>h y. \<exists>src d. getitem h ''_source'' = Inr src \<and> y = JDict d \<and>
                        map fst d = benchmark_keys \<and>
                        (\<forall>k\<in>set benchmark_keys. getitem y k = getitem src k)) hs ys"
  using yield_benchmarks_all [OF assms(3)]
  by (simp add: load_benchmarks_from_parts [OF assms(1,2)])

theorem load_benchmarks_one_per_hit_witness:
  "search (example_ext example_hits) ''demo'' None example_world =
     (Inr (JDict [(''hits'', JDict [(''hits'', JList example_hits)])]),
      example_world\<lparr>wire := [Search ''benchmark'' ''benchmark'' (search_body ''demo'' None)]\<rparr>)
   \<and> response_hits (JDict [(''hits'', JDict [(''hits'', JList example_hits)])]) = Inr example_hits
   \<and> list_all has_benchmark_fields example_hits
   \<and> load_benchmarks (example_ext example_hits) ''demo'' example_world =
       (([example_benchmark ''test_a'', example_benchmark ''test_b'', example_benchmark ''test_c''], None),
        example_world\<lparr>wire := [Search ''benchmark'' ''benchmark'' (search_body ''demo'' None)]\<rparr>)"
proof -
  from load_benchmarks_one_per_hit [OF ex_search ex_hits ex_fields]
  obtain ys where "load_benchmarks (example_ext example_hits) ''demo'' example_world =
      ((ys, None), example_world\<lparr>wire := [Search ''benchmark'' ''benchmark'' (search_body ''demo'' None)]\<rparr>)"
    by blast
  moreover have "fst (fst (load_benchmarks (example_ext example_hits) ''demo'' example_world)) =
      [example_benchmark ''test_a'', example_benchmark ''test_b'', example_benchmark ''test_c'']"
    by (simp add: load_benchmarks_from_parts [OF ex_search ex_hits] ex_yield)
  ultimately show ?thesis using ex_search ex_hits ex_fields by simp
qed

subsection \<open>C6: a malformed timestamp makes the sort raise\<close>

text \<open>
  Claim C6. Let the search succeed and the grouping return the runs \<open>groupped_data\<close>. If the
  \<^verbatim>\<open>datetime\<close> of one of the runs is a string that \<^verbatim>\<open>strptime\<close> rejects, then \<^verbatim>\<open>load\<close>
  yields nothing and ends with the exception that the sort raises, which is a
  \<^verbatim>\<open>ValueError\<close> (or the \<^verbatim>\<open>TypeError\<close> of an earlier run whose \<^verbatim>\<open>datetime\<close> is not a
  string).
\<close>

theorem load_malformed_datetime_raises:
  assumes "search ext project id_prefix w = (Inr r, w')"
    and "getitem r ''hits'' = Inr h" and "getitem h ''hits'' = Inr hits"
    and "group_by_commit_and_time ext hits = Inr groupped_data"
    and "(k, run) \<in> set groupped_data"
    and "getitem run ''datetime'' = Inr (JStr s)" and "strptime ext s = None"
  shows "\<exists>e. load ext project id_prefix w = (([], Some e), w') \<and>
           list_sort (datetime_key ext) groupped_data = Inl e \<and> (e = ValueError \<or> e = TypeError)"
proof -
  from assms(4) obtain hs where hs: "py_iter hits = Inr hs" and g: "group_hits ext hs [] = Inr groupped_data"
    by (auto simp: group_by_alt)
  have "datetime_key ext (k, run) = Inl ValueError"
    by (simp add: datetime_key_def and_then_def assms(6,7))
  then have "isl (all_keys (datetime_key ext) groupped_data)"
    using all_keys_fails [OF assms(5), of "datetime_key ext"] by simp
  then obtain e where e: "all_keys (datetime_key ext) groupped_data = Inl e"
    by (auto simp: isl_def)
  then have s: "list_sort (datetime_key ext) groupped_data = Inl e" by (simp add: list_sort_Inl)
  from all_keys_Inl [OF e] obtain k' run' where x: "(k', run') \<in> set groupped_data"
    and xe: "datetime_key ext (k', run') = Inl e" by auto
  have gr: "grouped ext hs groupped_data" by (rule group_hits_grouped [OF g])
  with x have "run_of ext k' hs run'" by (auto simp: grouped_def)
  from datetime_key_run_of [OF this] obtain c where
    "datetime_key ext (k', run') =
       (case c of JStr s \<Rightarrow> (case strptime ext s of None \<Rightarrow> Inl ValueError | Some t \<Rightarrow> Inr t)
        | _ \<Rightarrow> Inl TypeError)"
    by blast
  with xe have "e = ValueError \<or> e = TypeError"
    by (cases c) (auto split: option.splits)
  moreover have "load ext project id_prefix w = (([], Some e), w')"
    by (simp add: load_def load_result_def assms(1,2,3,4) and_then_def s)
  ultimately show ?thesis using s by blast
qed

theorem load_malformed_datetime_raises_witness:
  "group_by_commit_and_time (example_ext example_bad_hits) (JList example_bad_hits) = Inr
     [(''abc123_2020-01-02T00:00:00.000000'',
         example_run ''2020-01-02T00:00:00.000000'' ''n1'' ''3.1'' [example_benchmark ''test_a'']),
      (''abc123_2020-01-01 00:00'',
         example_run ''2020-01-01 00:00'' ''n1'' ''3.1'' [example_benchmark ''test_z''])]
   \<and> getitem (example_run ''2020-01-01 00:00'' ''n1'' ''3.1'' [example_benchmark ''test_z'']) ''datetime''
       = Inr (JStr ''2020-01-01 00:00'')
   \<and> strptime (example_ext example_bad_hits) ''2020-01-01 00:00'' = None
   \<and> load (example_ext example_bad_hits) ''demo'' None example_world =
       (([], Some ValueError),
        example_world\<lparr>wire := [Search ''benchmark'' ''benchmark'' (search_body ''demo'' None)]\<rparr>)"
proof -
  have 1: "getitem (JDict [(''hits'', JDict [(''hits'', JList example_bad_hits)])]) ''hits'' =
      Inr (JDict [(''hits'', JList example_bad_hits)])" by simp
  have 2: "getitem (JDict [(''hits'', JList example_bad_hits)]) ''hits'' = Inr (JList example_bad_hits)"
    by simp
  have 3: "(''abc123_2020-01-01 00:00'',
         example_run ''2020-01-01 00:00'' ''n1'' ''3.1'' [example_benchmark ''test_z'']) \<in> set
     [(''abc123_2020-01-02T00:00:00.000000'',
         example_run ''2020-01-02T00:00:00.000000'' ''n1'' ''3.1'' [example_benchmark ''test_a'']),
      (''abc123_2020-01-01 00:00'',
         example_run ''2020-01-01 00:00'' ''n1'' ''3.1'' [example_benchmark ''test_z''])]" by simp
  have 4: "getitem (example_run ''2020-01-01 00:00'' ''n1'' ''3.1'' [example_benchmark ''test_z'']) ''datetime''
       = Inr (JStr ''2020-01-01 00:00'')" by (simp add: example_run_def)
  have 5: "strptime (example_ext example_bad_hits) ''2020-01-01 00:00'' = None"
    by (simp add: example_ext_def example_strptime_def)
  from load_malformed_datetime_raises [OF ex_bad_search 1 2 ex_bad_groups 3 4 5]
  obtain e where l: "load (example_ext example_bad_hits) ''demo'' None example_world =
       (([], Some e),
        example_world\<lparr>wire := [Search ''benchmark'' ''benchmark'' (search_body ''demo'' None)]\<rparr>)"
    and s: "list_sort (datetime_key (example_ext example_bad_hits)) 
     [(''abc123_2020-01-02T00:00:00.000000'',
         example_run ''2020-01-02T00:00:00.000000'' ''n1'' ''3.1'' [example_benchmark ''test_a'']),
      (''abc123_2020-01-01 00:00'',
         example_run ''2020-01-01 00:00'' ''n1'' ''3.1'' [example_benchmark ''test_z''])] = Inl e"
    by blast
  have bad: "example_strptime ''2020-01-01 00:00'' = None" by (simp add: example_strptime_def)
  from s have "e = ValueError"
    by (simp add: list_sort_def and_then_def ex_datetime_key strp2 bad)
  with l ex_bad_groups 4 5 show ?thesis by simp
qed

subsection \<open>C7: index creation ignores every answer of status 400\<close>

text \<open>
  Claim C7 says that creating the index succeeds when the index exists already, and that every
  other failure of the creation propagates. The second half does not hold: the call passes
  \<^verbatim>\<open>ignore=400\<close>, and the client then returns every answer of status 400 instead of
  raising. The engine below answers 400 because it cannot parse the mapping; this is a failure,
  it is not "the index exists already", and \<^verbatim>\<open>_create_index\<close> returns normally.
\<close>

theorem create_index_not_only_exists_counterexample:
  "creation_failed (respond rejecting_ext (wire example_world) (IndicesCreate ''benchmark'' mapping))
   \<and> \<not> already_exists (respond rejecting_ext (wire example_world) (IndicesCreate ''benchmark'' mapping))
   \<and> fst (create_index rejecting_ext example_world) = Inr ()"
  by (simp add: creation_failed_def already_exists_def rejecting_ext_def bad_mapping_answer_def
      create_index_result)

text \<open>
  Claim C7, amended. \<^verbatim>\<open>_create_index\<close> returns normally exactly when the engine answers the
  creation call with a success status or with status 400 (the status of "the index exists
  already", but of other refusals too); a failure with any other status, or a request without
  an answer, is raised to the caller. The same holds for the constructor, which therefore
  returns a store when the index exists already.
\<close>

theorem create_index_ignores_status_400:
  "fst (create_index ext w) =
     (case respond ext (wire w) (IndicesCreate (elasticsearch_index (store w)) mapping) of
        NoAnswer \<Rightarrow> Inl ConnectionError
      | Http status body \<Rightarrow>
          if (200 \<le> status \<and> status < 300) \<or> status = 400 then Inr ()
          else Inl (TransportError status body))
   \<and> (import_elasticsearch ext = None \<longrightarrow>
        fst (init ext hosts index doctype log machine_id wire0) =
          (case respond ext wire0 (IndicesCreate index mapping) of
             NoAnswer \<Rightarrow> Inl ConnectionError
           | Http status body \<Rightarrow>
               if (200 \<le> status \<and> status < 300) \<or> status = 400
               then Inr \<lparr>elasticsearch_hosts = hosts, elasticsearch_index = index,
                          elasticsearch_doctype = doctype, elasticsearch = hosts,
                          default_machine_id = machine_id, logger = log, cache = []\<rparr>
               else Inl (TransportError status body)))"
  by (auto simp: create_index_result init_def split: es_raw.splits)

theorem create_index_ignores_status_400_witness:
  "already_exists (respond (example_ext example_hits) [] (IndicesCreate ''benchmark'' mapping))
   \<and> import_elasticsearch (example_ext example_hits) = None
   \<and> fst (create_index (example_ext example_hits) example_world) = Inr ()
   \<and> fst (init (example_ext example_hits) [''localhost:9200''] ''benchmark'' ''benchmark'' ''log'' None [])
       = Inr example_store"
  using create_index_ignores_status_400 [of "example_ext example_hits" example_world
      "[''localhost:9200'']" "''benchmark''" "''benchmark''" "''log''" None "[]"]
  by (simp add: already_exists_def example_ext_def example_respond_def example_world_def example_store_def)

subsection \<open>C8: a missing client library\<close>

text \<open>
  Claim C8. If \<^verbatim>\<open>import elasticsearch\<close> fails, the constructor raises an \<^verbatim>\<open>ImportError\<close> whose
  arguments are those of the original error and the hint to install
  \<^verbatim>\<open>elasticsearch\<close> or \<^verbatim>\<open>pytest-benchmark[elasticsearch]\<close>; nothing has been sent to the engine
  and no store results.
\<close>

theorem init_import_error:
  assumes "import_elasticsearch ext = Some args"
  shows "init ext hosts index doctype log machine_id wire0 =
           (Inl (ImportError
                   [JList args, JStr ''Please install elasticsearch or pytest-benchmark[elasticsearch]'']),
            wire0)"
  using assms by (simp add: init_def install_hint_def)

theorem init_import_error_witness:
  "import_elasticsearch unimportable_ext = Some [JStr ''No module named elasticsearch'']
   \<and> init unimportable_ext [''localhost:9200''] ''benchmark'' ''benchmark'' ''log'' None [] =
       (Inl (ImportError
               [JList [JStr ''No module named elasticsearch''],
                JStr ''Please install elasticsearch or pytest-benchmark[elasticsearch]'']),
        [])"
proof -
  have h: "import_elasticsearch unimportable_ext = Some [JStr ''No module named elasticsearch'']"
    by (simp add: unimportable_ext_def)
  show ?thesis using h init_import_error [OF h] by simp
qed

subsection \<open>C9: save sends the document as it is, and the store never changes\<close>

text \<open>
  Claim C9. \<^verbatim>\<open>save(document, id)\<close> sends exactly one request: an index call with the document
  as given, under the given id, on the configured index and doc-type. None of \<^verbatim>\<open>save\<close>,
  \<^verbatim>\<open>query\<close>, \<^verbatim>\<open>load\<close> and \<^verbatim>\<open>load_benchmarks\<close> changes a field of the store; a store that
  the constructor returns has the empty dict as its cache, which therefore stays empty.
\<close>

theorem save_verbatim_store_unchanged:
  "wire (snd (save ext document document_id w)) =
     wire w @ [Index (elasticsearch_index (store w)) (elasticsearch_doctype (store w))
                 document document_id]
   \<and> store (snd (save ext document document_id w)) = store w
   \<and> store (snd (query ext project w)) = store w
   \<and> store (snd (load ext project id_prefix w)) = store w
   \<and> store (snd (load_benchmarks ext project w)) = store w
   \<and> (\<forall>s wire1. init ext hosts index doctype log machine_id wire0 = (Inr s, wire1) \<longrightarrow> cache s = [])"
  by (auto simp: save_world query_world load_world load_benchmarks_world search_wire
      init_def create_index_result split: option.splits es_raw.splits if_splits)

theorem save_verbatim_store_unchanged_witness:
  "init (example_ext example_hits) [''localhost:9200''] ''benchmark'' ''benchmark'' ''log'' None [] =
     (Inr example_store, [IndicesCreate ''benchmark'' mapping])
   \<and> cache example_store = []
   \<and> snd (save (example_ext example_hits) (example_source ''test_d'' ''2020-01-03T00:00:00.000000'' ''n1'' ''3.1'')
            ''abc123_r3_d'' example_world) =
       \<lparr>store = example_store,
        wire = [Index ''benchmark'' ''benchmark''
                  (example_source ''test_d'' ''2020-01-03T00:00:00.000000'' ''n1'' ''3.1'') ''abc123_r3_d'']\<rparr>"
proof -
  have i: "init (example_ext example_hits) [''localhost:9200''] ''benchmark'' ''benchmark'' ''log'' None [] =
     (Inr example_store, [IndicesCreate ''benchmark'' mapping])"
    by (simp add: init_def create_index_result example_ext_def example_respond_def example_store_def)
  from i save_verbatim_store_unchanged [of "example_ext example_hits"
      "example_source ''test_d'' ''2020-01-03T00:00:00.000000'' ''n1'' ''3.1''" "''abc123_r3_d''" example_world
      "''demo''" None "[''localhost:9200'']" "''benchmark''" "''benchmark''" "''log''" None "[]"]
  show ?thesis
    by (cases "snd (save (example_ext example_hits) (example_source ''test_d'' ''2020-01-03T00:00:00.000000'' ''n1'' ''3.1'')
            ''abc123_r3_d'' example_world)")
       (simp add: example_world_def example_store_def)
qed

subsection \<open>C10: the run information comes from the first hit of a key\<close>

text \<open>
  Claim C10. Every record that \<^verbatim>\<open>load\<close> yields under a key \<open>k\<close> is a dict with the keys
  \<^verbatim>\<open>machine_info\<close>, \<^verbatim>\<open>commit_info\<close>, \<^verbatim>\<open>datetime\<close>, \<^verbatim>\<open>version\<close> and \<^verbatim>\<open>benchmarks\<close>, and the
  first four have the values of the source of the first hit, in the engine's order, whose key
  is \<open>k\<close>. The run information of later hits with the same key does not reach the record:
  in the example the second hit of the first of January reports another machine and another
  version, and the record has those of the first.
\<close>

theorem run_metadata_from_first_hit:
  assumes "search ext project id_prefix w = (Inr r, w')" and "response_hits r = Inr hs"
    and "load ext project id_prefix w = ((items, None), w'')" and "(k, run) \<in> set items"
  shows "\<exists>h src. find (\<lambda>h. hit_key ext h = Inr k) hs = Some h \<and> getitem h ''_source'' = Inr src \<and>
           (\<forall>f\<in>set run_keys. getitem run f = getitem src f) \<and>
           (\<exists>d. run = JDict d \<and> map fst d = run_keys @ [''benchmarks''])"
proof -
  from load_items [OF assms(1,2,3)] obtain res where g: "grouped ext hs res"
    and s: "list_sort (datetime_key ext) res = Inr items" by blast
  from grouped_items(3) [OF g list_sort_Inr(1) [OF s]] assms(4)
  have "run_of ext k hs run" by auto
  from run_of_fields [OF this] show ?thesis by blast
qed

theorem run_metadata_from_first_hit_witness:
  "hit_key (example_ext example_hits)
      (example_hit ''abc123_r1_c'' (example_source ''test_c'' ''2020-01-01T00:00:00.000000'' ''n2'' ''3.2''))
     = Inr ''abc123_2020-01-01T00:00:00.000000''
   \<and> (\<exists>items w' run. load (example_ext example_hits) ''demo'' None example_world = ((items, None), w')
        \<and> (''abc123_2020-01-01T00:00:00.000000'', run) \<in> set items
        \<and> getitem run ''version'' = Inr (JStr ''3.1'')
        \<and> getitem run ''machine_info'' = Inr (JDict [(''node'', JStr ''n1'')])
        \<and> getitem run ''benchmarks'' = Inr (JList [example_benchmark ''test_b'', example_benchmark ''test_c'']))"
proof -
  let ?run = "example_run ''2020-01-01T00:00:00.000000'' ''n1'' ''3.1''
             [example_benchmark ''test_b'', example_benchmark ''test_c'']"
  have m: "(''abc123_2020-01-01T00:00:00.000000'', ?run) \<in> set
      [(''abc123_2020-01-01T00:00:00.000000'', ?run),
        (''abc123_2020-01-02T00:00:00.000000'',
           example_run ''2020-01-02T00:00:00.000000'' ''n1'' ''3.1'' [example_benchmark ''test_a''])]"
    by simp
  from run_metadata_from_first_hit [OF ex_search ex_hits ex_load m]
  have f: "\<forall>f\<in>set run_keys. getitem ?run f =
      getitem (example_source ''test_b'' ''2020-01-01T00:00:00.000000'' ''n1'' ''3.1'') f"
    by (auto simp: ex_find_first example_hit_def)
  then have v: "getitem ?run ''version'' = Inr (JStr ''3.1'')"
    and i: "getitem ?run ''machine_info'' = Inr (JDict [(''node'', JStr ''n1'')])"
    by (simp_all add: run_keys_def example_source_def)
  have b: "getitem ?run ''benchmarks'' =
      Inr (JList [example_benchmark ''test_b'', example_benchmark ''test_c''])"
    by (simp add: example_run_def)
  have "\<exists>items w' run. load (example_ext example_hits) ''demo'' None example_world = ((items, None), w')
        \<and> (''abc123_2020-01-01T00:00:00.000000'', run) \<in> set items
        \<and> getitem run ''version'' = Inr (JStr ''3.1'')
        \<and> getitem run ''machine_info'' = Inr (JDict [(''node'', JStr ''n1'')])
        \<and> getitem run ''benchmarks'' = Inr (JList [example_benchmark ''test_b'', example_benchmark ''test_c''])"
    using ex_load m v i b by blast
  then show ?thesis by (simp add: ex_hit_key)
qed

end
